theory Spec2Isabelle
  imports Main "HOL-Library.AList" "HOL-Library.Sublist"
begin

section \<open>Gene lookup with a persistent cache (day04/business.py)\<close>

text \<open>
  The development embeds \<^verbatim>\<open>GeneCache\<close>, \<^verbatim>\<open>fetch_gene_from_genecards\<close>,
  \<^verbatim>\<open>fetch_details_via_ncbi\<close> and \<^verbatim>\<open>get_gene_data\<close> of \<^verbatim>\<open>day04/business.py\<close>.
  Python values that travel through the cache and the HTTP payloads are JSON values;
  a Python \<^verbatim>\<open>dict\<close> is an association list in insertion order (the order is observable
  through \<^verbatim>\<open>gc.values()\<close>), read with \<^const>\<open>map_of\<close>.
  JSON numbers are integers here; no function of the module computes with them.
\<close>

subsection \<open>Values\<close>

datatype json =
    JNull
  | JBool bool
  | JNum int
  | JStr string
  | JArr "json list"
  | JObj "(string \<times> json) list"

type_synonym dict = "(string \<times> json) list"

datatype error =
    ValueError string
  | GeneNotFoundError string
  | RuntimeError string
  | OSError string

text \<open>Python truthiness (\<^verbatim>\<open>if val\<close>, \<^verbatim>\<open>not val\<close>, \<^verbatim>\<open>a or b\<close>).\<close>

fun py_truthy :: "json \<Rightarrow> bool" where
  "py_truthy JNull = False"
| "py_truthy (JBool b) = b"
| "py_truthy (JNum n) = (n \<noteq> 0)"
| "py_truthy (JStr s) = (s \<noteq> [])"
| "py_truthy (JArr xs) = (xs \<noteq> [])"
| "py_truthy (JObj d) = (d \<noteq> [])"

definition py_or :: "json \<Rightarrow> json \<Rightarrow> json" where
  "py_or a b = (if py_truthy a then a else b)"

text \<open>\<^verbatim>\<open>k in d\<close>, \<^verbatim>\<open>d.get(k)\<close> and the literal \<^verbatim>\<open>{**base, **ext}\<close> / \<^verbatim>\<open>base.update(ext)\<close>.\<close>

definition dict_has :: "dict \<Rightarrow> string \<Rightarrow> bool" where
  "dict_has d k = (map_of d k \<noteq> None)"

definition dict_get :: "dict \<Rightarrow> string \<Rightarrow> json" where
  "dict_get d k = (case map_of d k of None \<Rightarrow> JNull | Some v \<Rightarrow> v)"

definition dict_merge :: "dict \<Rightarrow> dict \<Rightarrow> dict" where
  "dict_merge base ext = foldl (\<lambda>d kv. AList.update (fst kv) (snd kv) d) base ext"

subsection \<open>Strings\<close>

text \<open>
  A string is the UTF-8 encoding of the Python \<^verbatim>\<open>str\<close>, one \<open>char\<close> per byte.
  \<^verbatim>\<open>str.upper\<close>, \<^verbatim>\<open>str.lower\<close> and \<^verbatim>\<open>str.strip\<close> are modelled on the ASCII
  code points; Python's whitespace below 128 is 9..13, 28..31 and 32. Beyond ASCII,
  \<^verbatim>\<open>str.lower\<close> also maps the Kelvin sign U+212A (the bytes E2 84 AA) to \<open>k\<close>, as
  Python does; \<^verbatim>\<open>str.upper\<close> leaves the Kelvin sign alone, as Python does. Every other
  character outside ASCII is left as it is.
\<close>

definition char_upper :: "char \<Rightarrow> char" where
  "char_upper c = (let n = (of_char c :: nat) in
     if 97 \<le> n \<and> n \<le> 122 then char_of (n - 32) else c)"

definition char_lower :: "char \<Rightarrow> char" where
  "char_lower c = (let n = (of_char c :: nat) in
     if 65 \<le> n \<and> n \<le> 90 then char_of (n + 32) else c)"

definition is_space :: "char \<Rightarrow> bool" where
  "is_space c = (let n = (of_char c :: nat) in
     (9 \<le> n \<and> n \<le> 13) \<or> (28 \<le> n \<and> n \<le> 32))"

definition py_upper :: "string \<Rightarrow> string" where
  "py_upper s = map char_upper s"

fun py_lower :: "string \<Rightarrow> string" where
  "py_lower (a # b # c # cs) =
     (if a = CHR 0xE2 \<and> b = CHR 0x84 \<and> c = CHR 0xAA then CHR ''k'' # py_lower cs
      else char_lower a # py_lower (b # c # cs))"
| "py_lower (a # cs) = char_lower a # py_lower cs"
| "py_lower [] = []"

definition py_strip :: "string \<Rightarrow> string" where
  "py_strip s = rev (dropWhile is_space (rev (dropWhile is_space s)))"

definition is_ascii :: "string \<Rightarrow> bool" where
  "is_ascii s = list_all (\<lambda>c. (of_char c :: nat) < 128) s"

subsection \<open>The outside world\<close>

text \<open>
  The cache file is missing, unreadable (open or \<^verbatim>\<open>json.load\<close> raises) or holds a
  document; \<^verbatim>\<open>self._data\<close> is declared \<^verbatim>\<open>Dict[str, Any]\<close>, so a document is a dict.
  Opening a file for writing raises when the path is read-only. Every file-system
  access and every adapter call is recorded in \<open>log\<close>, oldest first.
  \<^verbatim>\<open>int(time.time())\<close> reads \<open>clock\<close> at the current \<open>ticks\<close> and advances it.
\<close>

datatype file_state = Missing | Unreadable | Doc dict

datatype io_event =
    MkdirParent string
  | PathExists string
  | OpenRead string
  | OpenWrite string
  | CallGenecards string
  | CallDetailsNcbi string
  | CallInfoEntrez string
  | CallSummaryEntrez json

record world =
  files :: "string \<Rightarrow> file_state"
  read_only :: "string \<Rightarrow> bool"
  mkdir_fails :: "string \<Rightarrow> bool"
  clock :: "nat \<Rightarrow> int"
  ticks :: nat
  log :: "io_event list"

definition emit :: "io_event \<Rightarrow> world \<Rightarrow> world" where
  "emit e w = w\<lparr>log := log w @ [e]\<rparr>"

definition time_time :: "world \<Rightarrow> int \<times> world" where
  "time_time w = (clock w (ticks w), w\<lparr>ticks := Suc (ticks w)\<rparr>)"

definition open_write :: "string \<Rightarrow> dict \<Rightarrow> world \<Rightarrow> (error + unit) \<times> world" where
  "open_write p d w =
     (let w1 = emit (OpenWrite p) w in
      if read_only w p then (Inl (OSError ''cannot open for writing''), w1)
      else (Inr (), w1\<lparr>files := (files w1)(p := Doc d)\<rparr>))"

definition open_read :: "string \<Rightarrow> world \<Rightarrow> (error + dict) \<times> world" where
  "open_read p w =
     (let w1 = emit (OpenRead p) w in
      case files w p of
        Doc d \<Rightarrow> (Inr d, w1)
      | _ \<Rightarrow> (Inl (OSError ''cannot read''), w1))"

subsection \<open>GeneCache\<close>

record gene_cache =
  path :: string
  data :: dict

definition DEFAULT_CACHE_PATH :: string where
  "DEFAULT_CACHE_PATH = ''cache.json''"

text \<open>\<^verbatim>\<open>_save\<close>: the write is attempted and any exception is swallowed.\<close>

definition GeneCache_save :: "gene_cache \<Rightarrow> world \<Rightarrow> world" where
  "GeneCache_save c w = (case open_write (path c) (data c) w of (_, w') \<Rightarrow> w')"

text \<open>\<^verbatim>\<open>_load\<close>: a missing file and an unreadable file both give the empty dict.\<close>

definition GeneCache_load :: "gene_cache \<Rightarrow> world \<Rightarrow> gene_cache \<times> world" where
  "GeneCache_load c w =
     (let w1 = emit (PathExists (path c)) w in
      if files w (path c) = Missing then (c\<lparr>data := []\<rparr>, w1)
      else (case open_read (path c) w1 of
              (Inr d, w2) \<Rightarrow> (c\<lparr>data := d\<rparr>, w2)
            | (Inl _, w2) \<Rightarrow> (c\<lparr>data := []\<rparr>, w2)))"

text \<open>\<^verbatim>\<open>__init__\<close>: the parent directory is created (this may raise), then the file is loaded.\<close>

definition GeneCache_init :: "string option \<Rightarrow> world \<Rightarrow> (error + gene_cache) \<times> world" where
  "GeneCache_init p w =
     (let pth = (case p of Some q \<Rightarrow> (if q = [] then DEFAULT_CACHE_PATH else q)
                          | None \<Rightarrow> DEFAULT_CACHE_PATH);
          w1 = emit (MkdirParent pth) w in
      if mkdir_fails w pth then (Inl (OSError ''mkdir''), w1)
      else (case GeneCache_load \<lparr>path = pth, data = []\<rparr> w1 of (c, w2) \<Rightarrow> (Inr c, w2)))"

definition is_legacy :: "json \<Rightarrow> bool" where
  "is_legacy val = (case val of
       JObj d \<Rightarrow> \<not> dict_has d ''summary'' \<and> dict_has d ''data''
     | _ \<Rightarrow> False)"

definition GeneCache_get :: "gene_cache \<Rightarrow> string \<Rightarrow> world \<Rightarrow> json option \<times> gene_cache \<times> world" where
  "GeneCache_get c gene w =
     (case map_of (data c) (py_upper gene) of
        None \<Rightarrow> (None, c, w)
      | Some val \<Rightarrow>
          if \<not> py_truthy val then (None, c, w)
          else if is_legacy val then
            (let c' = c\<lparr>data := AList.delete (py_upper gene) (data c)\<rparr>
             in (None, c', GeneCache_save c' w))
          else (Some val, c, w))"

definition GeneCache_set :: "gene_cache \<Rightarrow> string \<Rightarrow> dict \<Rightarrow> world \<Rightarrow> gene_cache \<times> world" where
  "GeneCache_set c gene val w =
     (case time_time w of (t, w1) \<Rightarrow>
        (let c' = c\<lparr>data := AList.update (py_upper gene)
                      (JObj (dict_merge [(''fetched_at'', JNum t)] val)) (data c)\<rparr>
         in (c', GeneCache_save c' w1)))"

subsection \<open>Source adapters\<close>

text \<open>
  The HTTP transport is a parameter. \<open>session_get\<close> is the outcome of the GET that
  \<^verbatim>\<open>fetch_gene_from_genecards\<close> sends; \<open>clinicaltables_get\<close> is the decoded payload of
  the GET that \<^verbatim>\<open>fetch_details_via_ncbi\<close> sends, \<open>None\<close> when \<^verbatim>\<open>requests.get\<close>,
  \<^verbatim>\<open>raise_for_status\<close> or \<^verbatim>\<open>resp.json()\<close> raises. The two Entrez functions wrap
  their whole body in \<^verbatim>\<open>try ... except Exception: return None\<close>, so they are total
  functions of their argument: \<open>None\<close> / \<open>JNull\<close> is Python's \<^verbatim>\<open>None\<close>.
  \<open>str_of\<close> is Python's \<^verbatim>\<open>str()\<close> of a value that is not a string.
\<close>

record http_response =
  content_type :: "string option"
  json_body :: "string + json"

datatype http_result = NetworkError string | Response http_response

record adapters =
  session_get :: "string \<Rightarrow> http_result"
  clinicaltables_get :: "string \<Rightarrow> json option"
  fetch_gene_info_via_entrez :: "string \<Rightarrow> dict option"
  fetch_summary_from_entrez :: "json \<Rightarrow> json"
  str_of :: "json \<Rightarrow> string"

definition fetch_gene_from_genecards :: "adapters \<Rightarrow> string \<Rightarrow> error + json" where
  "fetch_gene_from_genecards env gene =
     (case session_get env gene of
        NetworkError exc \<Rightarrow>
          Inl (RuntimeError (''Network error while contacting GeneALaCart: '' @ exc))
      | Response resp \<Rightarrow>
          (let ct = (case content_type resp of None \<Rightarrow> [] | Some h \<Rightarrow> h) in
           if \<not> sublist ''application/json'' (py_lower ct) then
             (case json_body resp of
                Inr j \<Rightarrow> Inr j
              | Inl _ \<Rightarrow> Inl (RuntimeError
                  ''GeneALaCart did not return JSON (likely requires authentication).''))
           else
             (case json_body resp of
                Inr j \<Rightarrow> Inr j
              | Inl exc \<Rightarrow> Inl (RuntimeError (''Failed to decode JSON from GeneALaCart: '' @ exc)))))"

text \<open>
  Python's \<^verbatim>\<open>len(x)\<close>, \<^verbatim>\<open>x[i]\<close>, iteration and \<^verbatim>\<open>s in x\<close> on a decoded JSON value;
  \<open>None\<close> is a raised exception (TypeError, IndexError, KeyError).
\<close>

fun py_len :: "json \<Rightarrow> nat option" where
  "py_len (JStr s) = Some (length s)"
| "py_len (JArr xs) = Some (length xs)"
| "py_len (JObj d) = Some (length d)"
| "py_len _ = None"

fun py_index :: "json \<Rightarrow> nat \<Rightarrow> json option" where
  "py_index (JArr xs) i = (if i < length xs then Some (xs ! i) else None)"
| "py_index (JStr s) i = (if i < length s then Some (JStr [s ! i]) else None)"
| "py_index _ i = None"

fun py_iter :: "json \<Rightarrow> json list option" where
  "py_iter (JArr xs) = Some xs"
| "py_iter (JStr s) = Some (map (\<lambda>c. JStr [c]) s)"
| "py_iter (JObj d) = Some (map (\<lambda>kv. JStr (fst kv)) d)"
| "py_iter _ = None"

fun py_contains :: "json \<Rightarrow> string \<Rightarrow> bool option" where
  "py_contains (JObj d) k = Some (dict_has d k)"
| "py_contains (JArr xs) k = Some (JStr k \<in> set xs)"
| "py_contains (JStr s) k = Some (sublist k s)"
| "py_contains _ k = None"

definition quoted :: "string \<Rightarrow> string" where
  "quoted s = CHR 0x27 # s @ [CHR 0x27]"

text \<open>\<^verbatim>\<open>j[i] if len(j) > i and j[i] is not None else dflt\<close>\<close>

definition payload_field :: "json \<Rightarrow> nat \<Rightarrow> json \<Rightarrow> json option" where
  "payload_field j i dflt =
     (case py_len j of
        None \<Rightarrow> None
      | Some n \<Rightarrow>
          if n > i then
            (case py_index j i of
               None \<Rightarrow> None
             | Some x \<Rightarrow> Some (if x \<noteq> JNull then x else dflt))
          else Some dflt)"

text \<open>
  \<^verbatim>\<open>ef_hash.get(name)[idx] if ef_hash and name in ef_hash and idx < len(ef_hash.get(name)) else None\<close>
\<close>

definition ef_value :: "json \<Rightarrow> string \<Rightarrow> nat \<Rightarrow> json option" where
  "ef_value ef_hash name idx =
     (if \<not> py_truthy ef_hash then Some JNull
      else case py_contains ef_hash name of
             None \<Rightarrow> None
           | Some False \<Rightarrow> Some JNull
           | Some True \<Rightarrow>
               (case ef_hash of
                  JObj d \<Rightarrow>
                    (case py_len (dict_get d name) of
                       None \<Rightarrow> None
                     | Some n \<Rightarrow> if idx < n then py_index (dict_get d name) idx else Some JNull)
                | _ \<Rightarrow> None))"

text \<open>
  The loop over \<^verbatim>\<open>enumerate(displays)\<close>: \<open>None\<close> is a raised exception,
  \<open>Some None\<close> the end of the loop without a match, \<open>Some (Some d)\<close> the returned dict.
\<close>

fun scan_displays :: "string \<Rightarrow> json \<Rightarrow> nat \<Rightarrow> json list \<Rightarrow> dict option option" where
  "scan_displays gene ef_hash idx [] = Some None"
| "scan_displays gene ef_hash idx (disp # rest) =
     (case py_len disp of
        None \<Rightarrow> None
      | Some n \<Rightarrow>
         (case (if n \<ge> 1 then py_index disp 0 else Some JNull) of
            None \<Rightarrow> None
          | Some symb \<Rightarrow>
             (case (if n \<ge> 2 then py_index disp 1 else Some JNull) of
                None \<Rightarrow> None
              | Some desc \<Rightarrow>
                 if py_truthy symb then
                   (case symb of
                      JStr s \<Rightarrow>
                        if py_upper s = py_upper gene then
                          (case ef_value ef_hash ''GeneID'' idx of
                             None \<Rightarrow> None
                           | Some geneid \<Rightarrow>
                              (case ef_value ef_hash ''chromosome'' idx of
                                 None \<Rightarrow> None
                               | Some chrom \<Rightarrow>
                                  (case ef_value ef_hash ''map_location'' idx of
                                     None \<Rightarrow> None
                                   | Some maploc \<Rightarrow>
                                       Some (Some [(''symbol'', symb), (''description'', desc),
                                                   (''geneid'', geneid), (''chromosome'', chrom),
                                                   (''map_location'', maploc)]))))
                        else scan_displays gene ef_hash (Suc idx) rest
                    | _ \<Rightarrow> None)
                 else scan_displays gene ef_hash (Suc idx) rest)))"

definition not_found_in_ncbi :: "string \<Rightarrow> error" where
  "not_found_in_ncbi gene =
     GeneNotFoundError (''Gene '' @ quoted gene @ '' not found in NCBI database'')"

definition ncbi_network_error :: "string \<Rightarrow> error" where
  "ncbi_network_error gene =
     GeneNotFoundError (''Could not fetch gene '' @ quoted gene @ '' from NCBI (network error)'')"

definition fetch_details_via_ncbi :: "adapters \<Rightarrow> string \<Rightarrow> error + dict" where
  "fetch_details_via_ncbi env gene =
     (case clinicaltables_get env gene of
        None \<Rightarrow> Inl (ncbi_network_error gene)
      | Some j \<Rightarrow>
         (case payload_field j 1 (JArr []) of
            None \<Rightarrow> Inl (ncbi_network_error gene)
          | Some codes \<Rightarrow>
             (case payload_field j 2 JNull of
                None \<Rightarrow> Inl (ncbi_network_error gene)
              | Some ef_hash \<Rightarrow>
                 (case payload_field j 3 (JArr []) of
                    None \<Rightarrow> Inl (ncbi_network_error gene)
                  | Some displays \<Rightarrow>
                     if \<not> py_truthy displays \<or> \<not> py_truthy codes then Inl (not_found_in_ncbi gene)
                     else (case py_iter displays of
                             None \<Rightarrow> Inl (ncbi_network_error gene)
                           | Some ds \<Rightarrow>
                              (case scan_displays gene ef_hash 0 ds of
                                 None \<Rightarrow> Inl (ncbi_network_error gene)
                               | Some None \<Rightarrow> Inl (not_found_in_ncbi gene)
                               | Some (Some d) \<Rightarrow> Inr d))))))"

subsection \<open>get_gene_data\<close>

text \<open>Lines 317--336: the summary extracted from the portal payload.\<close>

fun first_str_field :: "dict \<Rightarrow> string list \<Rightarrow> string option" where
  "first_str_field cand [] = None"
| "first_str_field cand (k # ks) =
     (case map_of cand k of
        Some (JStr s) \<Rightarrow> Some s
      | _ \<Rightarrow> first_str_field cand ks)"

definition extract_summary :: "string \<Rightarrow> json \<Rightarrow> string option" where
  "extract_summary gene_key gc =
     (case gc of
        JObj d \<Rightarrow>
          (case map_of d ''summary'' of
             Some (JStr s) \<Rightarrow> Some s
           | _ \<Rightarrow>
              (let candidate =
                     (if dict_has d gene_key then dict_get d gene_key
                      else (case d of [] \<Rightarrow> JNull | kv # _ \<Rightarrow> snd kv))
               in case candidate of
                    JObj cand \<Rightarrow>
                      first_str_field cand
                        [''summary'', ''GeneCards Summary'', ''description'', ''function'']
                  | _ \<Rightarrow> None))
      | _ \<Rightarrow> None)"

definition details_truthy :: "dict option \<Rightarrow> bool" where
  "details_truthy details = (case details of None \<Rightarrow> False | Some d \<Rightarrow> d \<noteq> [])"

definition gene_not_found :: "string \<Rightarrow> error" where
  "gene_not_found gene_key = GeneNotFoundError (''Gene '' @ quoted gene_key @ '' not found'')"

text \<open>Lines 339--348: no portal summary.\<close>

definition resolve_without_summary ::
  "adapters \<Rightarrow> string \<Rightarrow> world \<Rightarrow> (error + dict option \<times> string) \<times> world" where
  "resolve_without_summary env gene_key w =
     (let w1 = emit (CallDetailsNcbi gene_key) w in
      case fetch_details_via_ncbi env gene_key of
        Inr d \<Rightarrow> (Inr (Some d, ''ncbi''), w1)
      | Inl (GeneNotFoundError _) \<Rightarrow>
          (let w2 = emit (CallInfoEntrez gene_key) w1;
               details = fetch_gene_info_via_entrez env gene_key
           in if details_truthy details then (Inr (details, ''entrez''), w2)
              else (Inl (gene_not_found gene_key), w2))
      | Inl e \<Rightarrow> (Inl e, w1))"

text \<open>Lines 351--357: a portal summary was extracted.\<close>

definition resolve_with_summary ::
  "adapters \<Rightarrow> string \<Rightarrow> world \<Rightarrow> (error + dict option \<times> string) \<times> world" where
  "resolve_with_summary env gene_key w =
     (let w1 = emit (CallDetailsNcbi gene_key) w in
      case fetch_details_via_ncbi env gene_key of
        Inr d \<Rightarrow> (Inr (Some d, ''genecards''), w1)
      | Inl (GeneNotFoundError _) \<Rightarrow>
          (let w2 = emit (CallInfoEntrez gene_key) w1;
               details = fetch_gene_info_via_entrez env gene_key
           in (Inr (details, if details_truthy details then ''entrez'' else ''genecards''), w2))
      | Inl e \<Rightarrow> (Inl e, w1))"

text \<open>Lines 360--369: the handler of \<^verbatim>\<open>except RuntimeError\<close>.\<close>

definition resolve_after_runtime_error ::
  "adapters \<Rightarrow> string \<Rightarrow> world \<Rightarrow> (error + dict option \<times> string) \<times> world" where
  "resolve_after_runtime_error env gene_key w =
     (let w1 = emit (CallDetailsNcbi gene_key) w in
      case fetch_details_via_ncbi env gene_key of
        Inr d \<Rightarrow> (Inr (Some d, ''ncbi''), w1)
      | Inl (GeneNotFoundError _) \<Rightarrow>
          (let w2 = emit (CallInfoEntrez gene_key) w1;
               details = fetch_gene_info_via_entrez env gene_key
           in if details_truthy details then (Inr (details, ''entrez''), w2)
              else (Inl (gene_not_found gene_key), w2))
      | Inl e \<Rightarrow> (Inl e, w1))"

definition py_format :: "adapters \<Rightarrow> json \<Rightarrow> string" where
  "py_format env v = (case v of JStr s \<Rightarrow> s | _ \<Rightarrow> str_of env v)"

text \<open>Lines 372--391: the normalized record, filled from \<open>details\<close> when it is truthy.\<close>

definition initial_out :: "string \<Rightarrow> string \<Rightarrow> int \<Rightarrow> dict" where
  "initial_out gene_key source t =
     [(''symbol'', JStr gene_key), (''summary'', JNull), (''geneid'', JNull),
      (''chromosome'', JNull), (''map_location'', JNull), (''ncbi_url'', JNull),
      (''genecards_url'', JNull), (''source'', JStr source), (''fetched_at'', JNum t)]"

definition with_details :: "string \<Rightarrow> dict option \<Rightarrow> dict \<Rightarrow> dict" where
  "with_details gene_key details out =
     (case details of
        None \<Rightarrow> out
      | Some d \<Rightarrow>
          if d = [] then out
          else dict_merge out
                 [(''symbol'', py_or (dict_get d ''symbol'') (JStr gene_key)),
                  (''summary'', dict_get d ''description''),
                  (''geneid'', dict_get d ''geneid''),
                  (''chromosome'', dict_get d ''chromosome''),
                  (''map_location'', dict_get d ''map_location'')])"

text \<open>Lines 393--403: the two URLs.\<close>

definition with_urls :: "adapters \<Rightarrow> dict \<Rightarrow> dict" where
  "with_urls env out =
     (let out1 = (if py_truthy (dict_get out ''geneid'')
                  then AList.update ''ncbi_url''
                         (JStr (''https://www.ncbi.nlm.nih.gov/gene/''
                                @ py_format env (dict_get out ''geneid''))) out
                  else out)
      in AList.update ''genecards_url''
           (JStr (''https://www.genecards.org/cgi-bin/carddisp.pl?gene=''
                  @ py_format env (dict_get out1 ''symbol''))) out1)"

text \<open>Lines 406--414: \<open>entrez_summary\<close>.\<close>

definition with_entrez_summary :: "adapters \<Rightarrow> dict \<Rightarrow> world \<Rightarrow> dict \<times> world" where
  "with_entrez_summary env out w =
     (if py_truthy (dict_get out ''geneid'') then
        (let w1 = emit (CallSummaryEntrez (dict_get out ''geneid'')) w;
             entrez_summary = fetch_summary_from_entrez env (dict_get out ''geneid'')
         in (AList.update ''entrez_summary''
               (if py_truthy entrez_summary then entrez_summary else JNull) out, w1))
      else (AList.update ''entrez_summary'' JNull out, w))"

text \<open>Lines 417--418: \<open>summary\<close> is \<open>None\<close> when the variable is unbound or \<^verbatim>\<open>None\<close>.\<close>

definition with_portal_summary :: "string option \<Rightarrow> dict \<Rightarrow> dict" where
  "with_portal_summary summary out =
     (case summary of
        None \<Rightarrow> out
      | Some s \<Rightarrow> if s \<noteq> [] then AList.update ''summary'' (JStr s) out else out)"

definition opt_json :: "json option \<Rightarrow> json" where
  "opt_json r = (case r of None \<Rightarrow> JNull | Some v \<Rightarrow> v)"

text \<open>Lines 371--421.\<close>

definition normalize_and_store ::
  "adapters \<Rightarrow> gene_cache \<Rightarrow> string \<Rightarrow> dict option \<Rightarrow> string \<Rightarrow> string option \<Rightarrow> world
     \<Rightarrow> (error + json) \<times> gene_cache \<times> world" where
  "normalize_and_store env c gene_key details source summary w =
     (case time_time w of (t, w1) \<Rightarrow>
        (let out1 = with_urls env (with_details gene_key details (initial_out gene_key source t))
         in case with_entrez_summary env out1 w1 of (out2, w2) \<Rightarrow>
              (let out3 = with_portal_summary summary out2
               in case GeneCache_set c gene_key out3 w2 of (c1, w3) \<Rightarrow>
                    (case GeneCache_get c1 gene_key w3 of (r, c2, w4) \<Rightarrow>
                       (Inr (opt_json r), c2, w4)))))"

definition after_runtime_error ::
  "adapters \<Rightarrow> gene_cache \<Rightarrow> string \<Rightarrow> string option \<Rightarrow> world
     \<Rightarrow> (error + json) \<times> gene_cache \<times> world" where
  "after_runtime_error env c gene_key summary w =
     (case resolve_after_runtime_error env gene_key w of
        (Inl e, w1) \<Rightarrow> (Inl e, c, w1)
      | (Inr (details, source), w1) \<Rightarrow>
          normalize_and_store env c gene_key details source summary w1)"

text \<open>
  Lines 313--421, the cache-miss path. A \<^verbatim>\<open>RuntimeError\<close> raised inside the
  \<^verbatim>\<open>try\<close> block reaches the handler of line 359; every other exception leaves the function.
\<close>

definition cache_miss ::
  "adapters \<Rightarrow> gene_cache \<Rightarrow> string \<Rightarrow> world \<Rightarrow> (error + json) \<times> gene_cache \<times> world" where
  "cache_miss env c gene_key w =
     (let w1 = emit (CallGenecards gene_key) w in
      case fetch_gene_from_genecards env gene_key of
        Inl (RuntimeError _) \<Rightarrow> after_runtime_error env c gene_key None w1
      | Inl e \<Rightarrow> (Inl e, c, w1)
      | Inr gc \<Rightarrow>
          (let summary = extract_summary gene_key gc in
           case (if summary = None then resolve_without_summary env gene_key w1
                 else resolve_with_summary env gene_key w1) of
             (Inl (RuntimeError _), w2) \<Rightarrow> after_runtime_error env c gene_key summary w2
           | (Inl e, w2) \<Rightarrow> (Inl e, c, w2)
           | (Inr (details, source), w2) \<Rightarrow>
               normalize_and_store env c gene_key details source summary w2))"

text \<open>Lines 301--311, the cache-hit path with its lazy enrichment.\<close>

definition cache_hit ::
  "adapters \<Rightarrow> gene_cache \<Rightarrow> string \<Rightarrow> json \<Rightarrow> world \<Rightarrow> (error + json) \<times> gene_cache \<times> world" where
  "cache_hit env c gene_key cached w =
     (case cached of
        JObj d \<Rightarrow>
          if py_truthy (dict_get d ''geneid'') \<and> dict_get d ''entrez_summary'' = JNull then
            (let w1 = emit (CallSummaryEntrez (dict_get d ''geneid'')) w;
                 entrez = fetch_summary_from_entrez env (dict_get d ''geneid'')
             in if py_truthy entrez then
                  (let d' = AList.update ''entrez_summary'' entrez d
                   in case GeneCache_set c gene_key d' w1 of (c1, w2) \<Rightarrow> (Inr (JObj d'), c1, w2))
                else (Inr cached, c, w1))
          else (Inr cached, c, w)
      | _ \<Rightarrow> (Inr cached, c, w))"

text \<open>Lines 296--421, with the cache object in hand.\<close>

definition get_gene_data_with ::
  "adapters \<Rightarrow> string \<Rightarrow> gene_cache \<Rightarrow> world \<Rightarrow> (error + json) \<times> gene_cache \<times> world" where
  "get_gene_data_with env gene c w =
     (let gene_key = py_upper (py_strip gene) in
      if gene_key = [] then (Inl (ValueError ''Empty gene symbol''), c, w)
      else (case GeneCache_get c gene_key w of
              (Some cached, c1, w1) \<Rightarrow> cache_hit env c1 gene_key cached w1
            | (None, c1, w1) \<Rightarrow> cache_miss env c1 gene_key w1))"

text \<open>
  Lines 293--294 first: without a cache argument a \<^verbatim>\<open>GeneCache()\<close> on the default path
  is constructed. The result carries the cache object the call worked on.
\<close>

definition get_gene_data ::
  "adapters \<Rightarrow> string \<Rightarrow> gene_cache option \<Rightarrow> world
     \<Rightarrow> (error + json) \<times> gene_cache option \<times> world" where
  "get_gene_data env gene cache w =
     (case cache of
        Some c \<Rightarrow>
          (case get_gene_data_with env gene c w of (r, c', w') \<Rightarrow> (r, Some c', w'))
      | None \<Rightarrow>
          (case GeneCache_init None w of
             (Inl e, w1) \<Rightarrow> (Inl e, None, w1)
           | (Inr c, w1) \<Rightarrow>
               (case get_gene_data_with env gene c w1 of (r, c', w') \<Rightarrow> (r, Some c', w'))))"

subsection \<open>Reading results\<close>

text \<open>
  Lines 372--418 as a function of what they read: the dict \<open>out\<close> handed to
  \<^verbatim>\<open>cache.set\<close>, given the time \<open>t\<close> stored in it.
\<close>

definition out_before_store ::
  "adapters \<Rightarrow> string \<Rightarrow> dict option \<Rightarrow> string \<Rightarrow> string option \<Rightarrow> int \<Rightarrow> dict" where
  "out_before_store env gene_key details source summary t =
     with_portal_summary summary
       (AList.update ''entrez_summary''
          (let g = dict_get (with_urls env
                      (with_details gene_key details (initial_out gene_key source t))) ''geneid''
           in if py_truthy g \<and> py_truthy (fetch_summary_from_entrez env g)
              then fetch_summary_from_entrez env g else JNull)
          (with_urls env (with_details gene_key details (initial_out gene_key source t))))"

text \<open>A field of a returned record; \<open>None\<close> when the call raised or returned no dict.\<close>

definition record_field :: "error + json \<Rightarrow> string \<Rightarrow> json option" where
  "record_field res k = (case res of Inr (JObj r) \<Rightarrow> map_of r k | _ \<Rightarrow> None)"

text \<open>
  Two returned values are the same record when they are dicts with the same fields and
  the same values (Python's \<^verbatim>\<open>==\<close> on dicts ignores the insertion order), or equal
  values otherwise. Two calls agree when both raise the same error or both return the
  same record.
\<close>

definition same_record :: "json \<Rightarrow> json \<Rightarrow> bool" where
  "same_record a b =
     (case a of
        JObj x \<Rightarrow>
          (case b of
             JObj y \<Rightarrow> list_all (\<lambda>k. map_of x k = map_of y k) (map fst x @ map fst y)
           | _ \<Rightarrow> False)
      | _ \<Rightarrow> a = b)"

definition same_result :: "error + json \<Rightarrow> error + json \<Rightarrow> bool" where
  "same_result r1 r2 =
     (case r1 of
        Inl e1 \<Rightarrow> (case r2 of Inl e2 \<Rightarrow> e1 = e2 | Inr _ \<Rightarrow> False)
      | Inr a \<Rightarrow> (case r2 of Inl _ \<Rightarrow> False | Inr b \<Rightarrow> same_record a b))"

text \<open>
  The record that lines 371--421 store and return: \<open>out\<close> under the stamp that
  \<^verbatim>\<open>cache.set\<close> puts in front of it (the second reading of the clock).
\<close>

definition stored_record ::
  "adapters \<Rightarrow> string \<Rightarrow> dict option \<Rightarrow> string \<Rightarrow> string option \<Rightarrow> world \<Rightarrow> dict" where
  "stored_record env key details source summary w =
     dict_merge [(''fetched_at'', JNum (clock w (Suc (ticks w))))]
       (out_before_store env key details source summary (clock w (ticks w)))"

text \<open>
  A cached value that a later hit returns unchanged: it is stored under the key, it is
  truthy and not legacy-shaped, and the lazy enrichment of lines 304--308 does not fire
  on it.
\<close>

definition no_enrich :: "adapters \<Rightarrow> json \<Rightarrow> bool" where
  "no_enrich env v =
     (case v of
        JObj d \<Rightarrow> \<not> (py_truthy (dict_get d ''geneid'') \<and> dict_get d ''entrez_summary'' = JNull
                     \<and> py_truthy (fetch_summary_from_entrez env (dict_get d ''geneid'')))
      | _ \<Rightarrow> True)"

definition settled :: "adapters \<Rightarrow> gene_cache \<Rightarrow> string \<Rightarrow> json \<Rightarrow> bool" where
  "settled env c key v =
     (map_of (data c) key = Some v \<and> py_truthy v \<and> \<not> is_legacy v \<and> no_enrich env v)"

subsection \<open>Example inputs\<close>

text \<open>
  A world with no cache file, every path writable and the clock at 1700000000; an empty
  cache; a cache holding one normalized record; the legacy entry and the field map of
  \<^verbatim>\<open>test_genecli.py\<close>.
\<close>

definition world0 :: world where
  "world0 = \<lparr>files = (\<lambda>_. Missing), read_only = (\<lambda>_. False), mkdir_fails = (\<lambda>_. False),
             clock = (\<lambda>_. 1700000000), ticks = 0, log = []\<rparr>"

definition cache0 :: gene_cache where
  "cache0 = \<lparr>path = ''cache.json'', data = []\<rparr>"

definition cache_brca1 :: gene_cache where
  "cache_brca1 = \<lparr>path = ''cache.json'',
      data = [(''BRCA1'', JObj [(''fetched_at'', JNum 1), (''summary'', JStr ''DNA repair'')])]\<rparr>"

definition cache_legacy :: gene_cache where
  "cache_legacy = \<lparr>path = ''cache.json'',
      data = [(''OLDGENE'', JObj [(''fetched_at'', JNum 12345), (''data'', JStr ''old format'')])]\<rparr>"

definition test_data :: dict where
  "test_data = [(''symbol'', JStr ''BRCA1''), (''summary'', JStr ''Test summary'')]"

text \<open>
  Transport outcomes: the portal answers with its HTML login page; the portal answers
  with a JSON body under an HTML content type; the portal answers with JSON that carries
  a summary, or an empty summary. ClinicalTables finds BRCA1, or finds nothing.
\<close>

definition login_page :: http_result where
  "login_page = Response \<lparr>content_type = Some ''text/html; charset=utf-8'',
                           json_body = Inl ''Expecting value''\<rparr>"

definition mislabelled_json :: http_result where
  "mislabelled_json = Response \<lparr>content_type = Some ''text/html'',
                                 json_body = Inr (JObj [(''summary'', JStr ''Tumor suppressor'')])\<rparr>"

definition portal_json :: "string \<Rightarrow> http_result" where
  "portal_json s = Response \<lparr>content_type = Some ''application/json'',
                              json_body = Inr (JObj [(''summary'', JStr s)])\<rparr>"

definition clinicaltables_brca1 :: json where
  "clinicaltables_brca1 =
     JArr [JNum 1, JArr [JStr ''672''],
           JObj [(''GeneID'', JArr [JStr ''672'']), (''chromosome'', JArr [JStr ''17'']),
                 (''map_location'', JArr [JStr ''17q21.31''])],
           JArr [JArr [JStr ''BRCA1'', JStr ''BRCA1 DNA repair associated'']]]"

definition clinicaltables_empty :: json where
  "clinicaltables_empty = JArr [JNum 0, JArr [], JNull, JArr []]"

definition entrez_brca1 :: dict where
  "entrez_brca1 = [(''symbol'', JStr ''BRCA1''), (''geneid'', JStr ''672''),
                   (''chromosome'', JStr ''17''), (''map_location'', JStr ''17q21.31''),
                   (''description'', JStr ''BRCA1 DNA repair associated'')]"

definition env_ncbi :: adapters where
  "env_ncbi = \<lparr>session_get = (\<lambda>_. login_page),
                clinicaltables_get = (\<lambda>_. Some clinicaltables_brca1),
                fetch_gene_info_via_entrez = (\<lambda>_. None),
                fetch_summary_from_entrez = (\<lambda>_. JNull),
                str_of = (\<lambda>_. [])\<rparr>"

definition env_entrez :: adapters where
  "env_entrez = \<lparr>session_get = (\<lambda>_. login_page),
                  clinicaltables_get = (\<lambda>_. Some clinicaltables_empty),
                  fetch_gene_info_via_entrez = (\<lambda>_. Some entrez_brca1),
                  fetch_summary_from_entrez = (\<lambda>_. JNull),
                  str_of = (\<lambda>_. [])\<rparr>"

definition env_nothing :: adapters where
  "env_nothing = \<lparr>session_get = (\<lambda>_. login_page),
                   clinicaltables_get = (\<lambda>_. Some clinicaltables_empty),
                   fetch_gene_info_via_entrez = (\<lambda>_. None),
                   fetch_summary_from_entrez = (\<lambda>_. JNull),
                   str_of = (\<lambda>_. [])\<rparr>"

definition env_mislabelled :: adapters where
  "env_mislabelled = env_nothing\<lparr>session_get := (\<lambda>_. mislabelled_json)\<rparr>"

definition env_portal :: "string \<Rightarrow> adapters" where
  "env_portal s = env_nothing\<lparr>session_get := (\<lambda>_. portal_json s)\<rparr>"

definition env_enrich :: adapters where
  "env_enrich = env_nothing\<lparr>fetch_summary_from_entrez := (\<lambda>_. JStr ''This gene encodes a tumor suppressor'')\<rparr>"

definition world_with_file :: world where
  "world_with_file = world0\<lparr>files := (\<lambda>_. Missing)(''cache.json'' := Doc (data cache_brca1))\<rparr>"

definition cache_unenriched :: gene_cache where
  "cache_unenriched = \<lparr>path = ''cache.json'',
      data = [(''BRCA1'', JObj [(''fetched_at'', JNum 1), (''symbol'', JStr ''BRCA1''),
                               (''summary'', JStr ''DNA repair''), (''geneid'', JStr ''672''),
                               (''entrez_summary'', JNull)])]\<rparr>"

text \<open>
  Three calls in a row on one cache object, with the adapters fixed: a mixed-case symbol,
  its lowercase and its uppercase form. The first call enriches the cached record.
\<close>

definition first_call :: "(error + json) \<times> gene_cache option \<times> world" where
  "first_call = get_gene_data env_enrich ''Brca1'' (Some cache_unenriched) world0"

definition second_call :: "(error + json) \<times> gene_cache option \<times> world" where
  "second_call = get_gene_data env_enrich (py_lower ''Brca1'') (fst (snd first_call)) (snd (snd first_call))"

definition third_call :: "(error + json) \<times> gene_cache option \<times> world" where
  "third_call = get_gene_data env_enrich (py_upper ''Brca1'') (fst (snd second_call)) (snd (snd second_call))"

definition enriched_brca1 :: dict where
  "enriched_brca1 = [(''fetched_at'', JNum 1), (''symbol'', JStr ''BRCA1''),
                     (''summary'', JStr ''DNA repair''), (''geneid'', JStr ''672''),
                     (''entrez_summary'', JStr ''This gene encodes a tumor suppressor'')]"

text \<open>
  Two more runs of that kind. The symbol is the Kelvin sign, whose lowercase form is the
  letter \<open>k\<close>. And the cache holds a record without \<open>fetched_at\<close> that the first call
  enriches.
\<close>

definition kelvin_sign :: string where
  "kelvin_sign = [CHR 0xE2, CHR 0x84, CHR 0xAA]"

definition kelvin_first :: "(error + json) \<times> gene_cache option \<times> world" where
  "kelvin_first = get_gene_data (env_portal ''Tumor suppressor'') kelvin_sign (Some cache0) world0"

definition kelvin_second :: "(error + json) \<times> gene_cache option \<times> world" where
  "kelvin_second = get_gene_data (env_portal ''Tumor suppressor'') (py_lower kelvin_sign)
                     (fst (snd kelvin_first)) (snd (snd kelvin_first))"

definition cache_unstamped :: gene_cache where
  "cache_unstamped = \<lparr>path = ''cache.json'',
      data = [(''BRCA1'', JObj [(''symbol'', JStr ''BRCA1''), (''summary'', JStr ''DNA repair''),
                               (''geneid'', JStr ''672'')])]\<rparr>"

definition unstamped_first :: "(error + json) \<times> gene_cache option \<times> world" where
  "unstamped_first = get_gene_data env_enrich ''BRCA1'' (Some cache_unstamped) world0"

definition unstamped_second :: "(error + json) \<times> gene_cache option \<times> world" where
  "unstamped_second = get_gene_data env_enrich (py_lower ''BRCA1'')
                        (fst (snd unstamped_first)) (snd (snd unstamped_first))"


section \<open>Properties\<close>

subsection \<open>Strings and dicts\<close>

lemma char_upper_idem: "char_upper (char_upper c) = char_upper c"
  by (auto simp: char_upper_def Let_def)

lemma py_upper_idem: "py_upper (py_upper s) = py_upper s"
  by (simp add: py_upper_def char_upper_idem)

lemma char_upper_lower: "char_upper (char_lower c) = char_upper c"
  by (auto simp: char_upper_def char_lower_def Let_def)

lemma is_space_upper: "is_space (char_upper c) = is_space c"
  by (auto simp: char_upper_def is_space_def Let_def)

lemma is_space_lower: "is_space (char_lower c) = is_space c"
  by (auto simp: char_lower_def is_space_def Let_def)

lemma py_strip_map:
  assumes "\<And>c. is_space (f c) = is_space c"
  shows "py_strip (map f s) = map f (py_strip s)"
proof -
  have sp: "is_space \<circ> f = is_space" using assms by (simp add: fun_eq_iff)
  show ?thesis
    by (simp add: py_strip_def dropWhile_map rev_map sp)
qed

lemma map_of_dict_merge: "map_of (dict_merge base ext) = map_of base ++ map_of (rev ext)"
proof (induction ext arbitrary: base)
  case Nil
  then show ?case by (simp add: dict_merge_def)
next
  case (Cons kv ext)
  have "map_of (dict_merge base (kv # ext))
          = map_of (dict_merge (AList.update (fst kv) (snd kv) base) ext)"
    by (simp add: dict_merge_def)
  also have "\<dots> = (map_of base)(fst kv \<mapsto> snd kv) ++ map_of (rev ext)"
    by (simp only: Cons.IH update_conv')
  finally show ?case
    by (auto simp: fun_eq_iff map_add_def split: option.splits)
qed

lemma map_of_rev_distinct: "distinct (map fst xs) \<Longrightarrow> map_of (rev xs) = map_of xs"
proof (induction xs)
  case Nil
  then show ?case by simp
next
  case (Cons kv xs)
  then have ih: "map_of (rev xs) = map_of xs" and nin: "fst kv \<notin> fst ` set xs" by auto
  have "map_of xs (fst kv) = None" using nin by (simp add: map_of_eq_None_iff)
  then show ?case
    by (cases kv) (auto simp: fun_eq_iff map_add_def ih split: option.splits)
qed

lemma dict_has_dom: "dict_has d k \<longleftrightarrow> k \<in> dom (map_of d)"
  by (auto simp: dict_has_def)

lemma dict_has_merge: "dict_has (dict_merge base ext) k = (dict_has base k \<or> dict_has ext k)"
  by (auto simp: dict_has_dom map_of_dict_merge dom_map_of_conv_image_fst)

lemma dict_merge_not_empty: "base \<noteq> [] \<Longrightarrow> dict_merge base ext \<noteq> []"
proof -
  assume "base \<noteq> []"
  then obtain k where "dict_has base k"
    by (cases base) (auto simp: dict_has_dom dom_map_of_conv_image_fst)
  then have "dict_has (dict_merge base ext) k" by (simp add: dict_has_merge)
  then show ?thesis by (auto simp: dict_has_def)
qed

subsection \<open>The cache store\<close>

text \<open>
  C5 (as the code has it). \<^verbatim>\<open>GeneCache.set(k, v)\<close> followed by \<^verbatim>\<open>GeneCache.get(k)\<close>
  returns the record \<^verbatim>\<open>{"fetched_at": now, **v}\<close> whenever \<open>v\<close> is not legacy-shaped
  (it has a \<open>summary\<close> field or no \<open>data\<close> field): every field of \<open>v\<close> is in it with
  the value from \<open>v\<close>, it has a \<open>fetched_at\<close> field, and that field is the integer
  time of the call unless \<open>v\<close> carries a \<open>fetched_at\<close> of its own. The cache and the
  world are left as \<open>set\<close> left them.
\<close>

theorem GeneCache_set_get_roundtrip:
  assumes "distinct (map fst v)"
      and "dict_has v ''summary'' \<or> \<not> dict_has v ''data''"
      and "GeneCache_set c k v w = (c1, w1)"
  shows "GeneCache_get c1 k w1
           = (Some (JObj (dict_merge [(''fetched_at'', JNum (clock w (ticks w)))] v)), c1, w1)
       \<and> (\<forall>f x. map_of v f = Some x \<longrightarrow>
              map_of (dict_merge [(''fetched_at'', JNum (clock w (ticks w)))] v) f = Some x)
       \<and> dict_has (dict_merge [(''fetched_at'', JNum (clock w (ticks w)))] v) ''fetched_at''
       \<and> (\<not> dict_has v ''fetched_at'' \<longrightarrow>
              map_of (dict_merge [(''fetched_at'', JNum (clock w (ticks w)))] v) ''fetched_at''
                = Some (JNum (clock w (ticks w))))"
proof -
  let ?r = "dict_merge [(''fetched_at'', JNum (clock w (ticks w)))] v"
  have c1: "data c1 = AList.update (py_upper k) (JObj ?r) (data c)"
    using assms(3) by (auto simp: GeneCache_set_def time_time_def Let_def)
  have look: "map_of (data c1) (py_upper k) = Some (JObj ?r)"
    by (simp add: c1 update_conv')
  have ne: "?r \<noteq> []" by (rule dict_merge_not_empty) simp
  have nl: "\<not> is_legacy (JObj ?r)"
    using assms(2) by (simp add: is_legacy_def dict_has_merge) (auto simp: dict_has_def)
  have g: "GeneCache_get c1 k w1 = (Some (JObj ?r), c1, w1)"
    by (simp add: GeneCache_get_def look ne nl)
  have f: "\<forall>f x. map_of v f = Some x \<longrightarrow> map_of ?r f = Some x"
    by (simp add: map_of_dict_merge map_of_rev_distinct[OF assms(1)] map_add_def)
  have h: "dict_has ?r ''fetched_at''" by (simp add: dict_has_merge) (simp add: dict_has_def)
  have t: "\<not> dict_has v ''fetched_at'' \<longrightarrow> map_of ?r ''fetched_at'' = Some (JNum (clock w (ticks w)))"
    by (auto simp: map_of_dict_merge map_of_rev_distinct[OF assms(1)] map_add_def dict_has_def)
  from g f h t show ?thesis by blast
qed

theorem GeneCache_set_get_roundtrip_witness:
  "distinct (map fst test_data) \<and> dict_has test_data ''summary''
   \<and> fst (GeneCache_get (fst (GeneCache_set cache0 ''brca1'' test_data world0)) ''brca1''
             (snd (GeneCache_set cache0 ''brca1'' test_data world0)))
       = Some (JObj [(''fetched_at'', JNum 1700000000), (''symbol'', JStr ''BRCA1''),
                     (''summary'', JStr ''Test summary'')])"
proof -
  have d: "distinct (map fst test_data)" by (simp add: test_data_def)
  have s: "dict_has test_data ''summary''" by (simp add: test_data_def dict_has_def)
  have m: "dict_merge [(''fetched_at'', JNum (clock world0 (ticks world0)))] test_data
            = [(''fetched_at'', JNum 1700000000), (''symbol'', JStr ''BRCA1''),
               (''summary'', JStr ''Test summary'')]"
    by (simp add: dict_merge_def test_data_def world0_def)
  from GeneCache_set_get_roundtrip
         [OF d disjI1 [OF s] surjective_pairing, of cache0 "''brca1''" world0]
  show ?thesis using d s by (simp add: m)
qed

text \<open>
  C5 as stated fails: a field map with a \<open>data\<close> field and no \<open>summary\<close> field is
  stored by \<open>set\<close> and then dropped by \<open>get\<close> as a legacy entry.
\<close>

theorem GeneCache_set_get_legacy_shaped_absent:
  "fst (GeneCache_get (fst (GeneCache_set cache0 ''BRCA1'' [(''data'', JStr ''old'')] world0))
          ''BRCA1'' (snd (GeneCache_set cache0 ''BRCA1'' [(''data'', JStr ''old'')] world0))) = None"
  by code_simp

text \<open>
  C6. When the value stored under the uppercased key is a dict with a \<open>data\<close> field and
  no \<open>summary\<close> field, \<^verbatim>\<open>GeneCache.get\<close> returns absent and removes exactly that entry
  from the store; a second \<open>get\<close> on the same key returns absent again and changes
  nothing. The removal is written to the cache file when the file can be written; when
  it cannot, the failure is swallowed: \<open>get\<close> still returns absent and the files are
  untouched.
\<close>

theorem GeneCache_get_legacy_invalidation:
  assumes "map_of (data c) (py_upper k) = Some (JObj d)"
      and "dict_has d ''data''" and "\<not> dict_has d ''summary''"
      and "GeneCache_get c k w = (r1, c1, w1)"
      and "GeneCache_get c1 k w1 = (r2, c2, w2)"
  shows "r1 = None \<and> r2 = None
       \<and> map_of (data c1) (py_upper k) = None
       \<and> (\<forall>k'. k' \<noteq> py_upper k \<longrightarrow> map_of (data c1) k' = map_of (data c) k')
       \<and> (\<not> read_only w (path c) \<longrightarrow> files w1 (path c) = Doc (data c1))
       \<and> (read_only w (path c) \<longrightarrow> files w1 = files w)
       \<and> c2 = c1 \<and> w2 = w1"
proof -
  have ne: "d \<noteq> []" using assms(2) by (auto simp: dict_has_def)
  have leg: "is_legacy (JObj d)" using assms(2,3) by (simp add: is_legacy_def)
  have first: "r1 = None" "c1 = c\<lparr>data := AList.delete (py_upper k) (data c)\<rparr>"
       "w1 = GeneCache_save c1 w"
    using assms(1,4) ne leg by (auto simp: GeneCache_get_def Let_def)
  have gone: "map_of (data c1) (py_upper k) = None" by (simp add: first(2) delete_conv')
  have second: "r2 = None" "c2 = c1" "w2 = w1"
    using assms(5) gone by (auto simp: GeneCache_get_def)
  have others: "\<forall>k'. k' \<noteq> py_upper k \<longrightarrow> map_of (data c1) k' = map_of (data c) k'"
    by (simp add: first(2) delete_conv')
  have p: "path c1 = path c" by (simp add: first(2))
  have ok: "\<not> read_only w (path c) \<longrightarrow> files w1 (path c) = Doc (data c1)"
    by (simp add: first(3) GeneCache_save_def open_write_def emit_def Let_def p)
  have bad: "read_only w (path c) \<longrightarrow> files w1 = files w"
    by (simp add: first(3) GeneCache_save_def open_write_def emit_def Let_def p)
  from first(1) second gone others ok bad show ?thesis by blast
qed

theorem GeneCache_get_legacy_invalidation_witness:
  "map_of (data cache_legacy) (py_upper ''OLDGENE'')
      = Some (JObj [(''fetched_at'', JNum 12345), (''data'', JStr ''old format'')])
   \<and> dict_has [(''fetched_at'', JNum 12345), (''data'', JStr ''old format'')] ''data''
   \<and> \<not> dict_has [(''fetched_at'', JNum 12345), (''data'', JStr ''old format'')] ''summary''
   \<and> GeneCache_get cache_legacy ''OLDGENE'' world0 = (None, cache0, GeneCache_save cache0 world0)
   \<and> GeneCache_get cache0 ''OLDGENE'' (GeneCache_save cache0 world0)
        = (None, cache0, GeneCache_save cache0 world0)
   \<and> files (GeneCache_save cache0 world0) ''cache.json'' = Doc []"
proof -
  have u: "py_upper ''OLDGENE'' = ''OLDGENE''" by code_simp
  have a: "map_of (data cache_legacy) (py_upper ''OLDGENE'')
      = Some (JObj [(''fetched_at'', JNum 12345), (''data'', JStr ''old format'')])"
    by (simp add: u cache_legacy_def)
  have b: "dict_has [(''fetched_at'', JNum 12345), (''data'', JStr ''old format'')] ''data''"
    by (simp add: dict_has_def)
  have c: "\<not> dict_has [(''fetched_at'', JNum 12345), (''data'', JStr ''old format'')] ''summary''"
    by (simp add: dict_has_def)
  have g1: "GeneCache_get cache_legacy ''OLDGENE'' world0
              = (None, cache0, GeneCache_save cache0 world0)"
    by (simp add: GeneCache_get_def u cache_legacy_def cache0_def is_legacy_def dict_has_def Let_def)
  obtain r2 c2 w2
    where g2: "GeneCache_get cache0 ''OLDGENE'' (GeneCache_save cache0 world0) = (r2, c2, w2)"
    by (cases "GeneCache_get cache0 ''OLDGENE'' (GeneCache_save cache0 world0)") auto
  have p: "path cache_legacy = ''cache.json''" "\<not> read_only world0 ''cache.json''"
          "data cache0 = []"
    by (simp_all add: cache_legacy_def world0_def cache0_def)
  from GeneCache_get_legacy_invalidation [OF a b c g1 g2]
  show ?thesis using a b c g1 g2 p by simp
qed

subsection \<open>The record handed to the cache\<close>

lemma distinct_dict_merge:
  "distinct (map fst base) \<Longrightarrow> distinct (map fst (dict_merge base ext))"
  unfolding dict_merge_def
  by (induction ext arbitrary: base) (simp_all add: distinct_update)

lemma map_of_dict_merge_distinct:
  "distinct (map fst ext) \<Longrightarrow> map_of (dict_merge base ext) = map_of base ++ map_of ext"
  by (simp add: map_of_dict_merge map_of_rev_distinct)

lemma fst_with_entrez_summary:
  "fst (with_entrez_summary env out w) =
     AList.update ''entrez_summary''
       (let g = dict_get out ''geneid''
        in if py_truthy g \<and> py_truthy (fetch_summary_from_entrez env g)
           then fetch_summary_from_entrez env g else JNull) out"
  by (simp add: with_entrez_summary_def Let_def)

lemma with_entrez_summary_world:
  "ticks (snd (with_entrez_summary env out w)) = ticks w
   \<and> clock (snd (with_entrez_summary env out w)) = clock w"
  by (simp add: with_entrez_summary_def Let_def emit_def)

lemma distinct_initial_out: "distinct (map fst (initial_out key source t))"
  by (simp add: initial_out_def)

lemma distinct_with_details:
  "distinct (map fst out) \<Longrightarrow> distinct (map fst (with_details key details out))"
  by (simp add: with_details_def distinct_dict_merge split: option.splits)

lemma distinct_with_urls:
  "distinct (map fst out) \<Longrightarrow> distinct (map fst (with_urls env out))"
  by (simp add: with_urls_def Let_def distinct_update)

lemma distinct_with_portal_summary:
  "distinct (map fst out) \<Longrightarrow> distinct (map fst (with_portal_summary summary out))"
  by (simp add: with_portal_summary_def distinct_update split: option.splits)

lemma distinct_out_before_store:
  "distinct (map fst (out_before_store env key details source summary t))"
  unfolding out_before_store_def
  by (intro distinct_with_portal_summary distinct_update distinct_with_urls
        distinct_with_details distinct_initial_out)

lemma map_of_with_urls:
  "k \<noteq> ''ncbi_url'' \<Longrightarrow> k \<noteq> ''genecards_url'' \<Longrightarrow> map_of (with_urls env out) k = map_of out k"
  by (simp add: with_urls_def Let_def update_conv')

lemma map_of_with_portal_summary:
  "map_of (with_portal_summary summary out) k =
     (if k = ''summary'' \<and> (\<exists>s. summary = Some s \<and> s \<noteq> []) then Some (JStr (the summary))
      else map_of out k)"
  by (auto simp: with_portal_summary_def update_conv' split: option.splits)

lemma with_details_falsy:
  "\<not> details_truthy details \<Longrightarrow> with_details key details out = out"
  by (auto simp: with_details_def details_truthy_def split: option.splits)

lemma map_of_with_details_other:
  "k \<notin> {''symbol'', ''summary'', ''geneid'', ''chromosome'', ''map_location''}
     \<Longrightarrow> map_of (with_details key details out) k = map_of out k"
  by (auto simp: with_details_def map_of_dict_merge_distinct map_add_def split: option.splits)

lemma map_of_out_source:
  "map_of (out_before_store env key details source summary t) ''source'' = Some (JStr source)"
  by (simp add: out_before_store_def map_of_with_portal_summary update_conv' map_of_with_urls
        map_of_with_details_other initial_out_def)

lemma map_of_out_fetched_at:
  "map_of (out_before_store env key details source summary t) ''fetched_at'' = Some (JNum t)"
  by (simp add: out_before_store_def map_of_with_portal_summary update_conv' map_of_with_urls
        map_of_with_details_other initial_out_def)

lemma dict_has_out_summary:
  "dict_has (out_before_store env key details source summary t) ''summary''"
proof -
  have a: "dict_has (initial_out key source t) ''summary''"
    by (simp add: initial_out_def dict_has_def)
  have b: "\<And>out. dict_has out ''summary'' \<Longrightarrow> dict_has (with_details key details out) ''summary''"
    by (auto simp: with_details_def dict_has_merge split: option.splits)
  have c: "\<And>out. dict_has out ''summary'' \<Longrightarrow> dict_has (with_urls env out) ''summary''"
    by (simp add: dict_has_def map_of_with_urls)
  have d: "\<And>out v. dict_has out ''summary''
             \<Longrightarrow> dict_has (AList.update ''entrez_summary'' v out) ''summary''"
    by (simp add: dict_has_def update_conv')
  have e: "\<And>out. dict_has out ''summary'' \<Longrightarrow> dict_has (with_portal_summary summary out) ''summary''"
    by (auto simp: dict_has_def map_of_with_portal_summary)
  show ?thesis unfolding out_before_store_def by (intro e d c b a)
qed

lemma map_of_stored:
  "map_of (dict_merge [(''fetched_at'', JNum t2)]
             (out_before_store env key details source summary t)) k
     = map_of (out_before_store env key details source summary t) k"
proof (cases "k = ''fetched_at''")
  case True
  then show ?thesis
    by (simp add: map_of_dict_merge_distinct [OF distinct_out_before_store] map_add_def
          map_of_out_fetched_at)
next
  case False
  then show ?thesis
    by (simp add: map_of_dict_merge_distinct [OF distinct_out_before_store] map_add_def
          split: option.splits)
qed

subsection \<open>Storing and reading back\<close>

lemma GeneCache_set_eq:
  "GeneCache_set c k v w =
     (c\<lparr>data := AList.update (py_upper k)
                 (JObj (dict_merge [(''fetched_at'', JNum (clock w (ticks w)))] v)) (data c)\<rparr>,
      GeneCache_save
        (c\<lparr>data := AList.update (py_upper k)
                 (JObj (dict_merge [(''fetched_at'', JNum (clock w (ticks w)))] v)) (data c)\<rparr>)
        (w\<lparr>ticks := Suc (ticks w)\<rparr>))"
  by (simp add: GeneCache_set_def time_time_def Let_def)

lemma GeneCache_get_stored:
  assumes "map_of (data c) (py_upper k) = Some (JObj r)"
      and "dict_has r ''summary''"
  shows "GeneCache_get c k w = (Some (JObj r), c, w)"
proof -
  have "r \<noteq> []" using assms(2) by (auto simp: dict_has_def)
  moreover have "\<not> is_legacy (JObj r)" using assms(2) by (simp add: is_legacy_def)
  ultimately show ?thesis using assms(1) by (simp add: GeneCache_get_def)
qed

lemma normalize_and_store_eq:
  "\<exists>c' w'. normalize_and_store env c key details source summary w
      = (Inr (JObj (stored_record env key details source summary w)), c', w')
     \<and> data c' = AList.update (py_upper key)
                   (JObj (stored_record env key details source summary w)) (data c)
     \<and> path c' = path c"
proof -
  let ?t = "clock w (ticks w)"
  let ?w1 = "w\<lparr>ticks := Suc (ticks w)\<rparr>"
  let ?out1 = "with_urls env (with_details key details (initial_out key source ?t))"
  let ?out3 = "out_before_store env key details source summary ?t"
  let ?w2 = "snd (with_entrez_summary env ?out1 ?w1)"
  let ?r = "stored_record env key details source summary w"
  let ?c1 = "c\<lparr>data := AList.update (py_upper key) (JObj ?r) (data c)\<rparr>"
  let ?w3 = "GeneCache_save ?c1 (?w2\<lparr>ticks := Suc (ticks ?w2)\<rparr>)"
  have o3: "with_portal_summary summary (fst (with_entrez_summary env ?out1 ?w1)) = ?out3"
    by (simp add: fst_with_entrez_summary out_before_store_def)
  have tk: "clock ?w2 (ticks ?w2) = clock w (Suc (ticks w))"
    by (simp add: with_entrez_summary_world)
  have st: "GeneCache_set c key ?out3 ?w2 = (?c1, ?w3)"
    by (simp add: GeneCache_set_eq tk stored_record_def)
  have look: "map_of (data ?c1) (py_upper key) = Some (JObj ?r)"
    by (simp add: update_conv')
  have hs: "dict_has ?r ''summary''"
    by (simp add: dict_has_merge dict_has_out_summary stored_record_def)
  have gt: "GeneCache_get ?c1 key ?w3 = (Some (JObj ?r), ?c1, ?w3)"
    by (rule GeneCache_get_stored [OF look hs])
  have "normalize_and_store env c key details source summary w = (Inr (JObj ?r), ?c1, ?w3)"
    unfolding normalize_and_store_def
    by (simp add: time_time_def Let_def split_beta o3 st gt opt_json_def)
  then show ?thesis by auto
qed

lemma map_of_stored_record:
  "map_of (stored_record env key details source summary w) k
     = map_of (out_before_store env key details source summary (clock w (ticks w))) k"
  by (simp add: stored_record_def map_of_stored)

lemma record_field_normalize_and_store:
  "record_field (fst (normalize_and_store env c key details source summary w)) k
     = map_of (out_before_store env key details source summary (clock w (ticks w))) k"
proof -
  from normalize_and_store_eq [of env c key details source summary w]
  obtain c' w' where "normalize_and_store env c key details source summary w
      = (Inr (JObj (stored_record env key details source summary w)), c', w')" by blast
  then show ?thesis by (simp add: record_field_def map_of_stored_record)
qed

lemma fetch_details_via_ncbi_raises:
  "fetch_details_via_ncbi env gene = Inl e \<Longrightarrow> \<exists>m. e = GeneNotFoundError m"
  by (auto simp: fetch_details_via_ncbi_def not_found_in_ncbi_def ncbi_network_error_def
           split: option.splits if_splits)

lemma fetch_gene_from_genecards_raises:
  "fetch_gene_from_genecards env gene = Inl e \<Longrightarrow> \<exists>m. e = RuntimeError m"
  by (auto simp: fetch_gene_from_genecards_def Let_def
           split: http_result.splits sum.splits if_splits)

subsection \<open>The portal adapter\<close>

text \<open>
  C8 (as the code has it). When the Content-Type of the portal's response does not
  contain \<open>application/json\<close>, \<^verbatim>\<open>fetch_gene_from_genecards\<close> still tries to decode the
  body: it returns the decoded body when that succeeds and raises the recoverable
  \<^verbatim>\<open>RuntimeError\<close> ("did not return JSON") when it does not. In neither case does it
  raise \<^verbatim>\<open>GeneNotFoundError\<close>.
\<close>

theorem fetch_gene_from_genecards_non_json:
  assumes "session_get env gene = Response resp"
      and "\<not> sublist ''application/json''
                (py_lower (case content_type resp of None \<Rightarrow> [] | Some h \<Rightarrow> h))"
  shows "(\<forall>j. json_body resp = Inr j \<longrightarrow> fetch_gene_from_genecards env gene = Inr j)
       \<and> (\<forall>exc. json_body resp = Inl exc \<longrightarrow>
             fetch_gene_from_genecards env gene
               = Inl (RuntimeError ''GeneALaCart did not return JSON (likely requires authentication).''))
       \<and> (\<forall>m. fetch_gene_from_genecards env gene \<noteq> Inl (GeneNotFoundError m))"
  using assms
  by (auto simp: fetch_gene_from_genecards_def Let_def split: sum.splits)

theorem fetch_gene_from_genecards_non_json_witness:
  "session_get env_ncbi ''BRCA1''
     = Response \<lparr>content_type = Some ''text/html; charset=utf-8'', json_body = Inl ''Expecting value''\<rparr>
   \<and> \<not> sublist ''application/json'' (py_lower ''text/html; charset=utf-8'')
   \<and> fetch_gene_from_genecards env_ncbi ''BRCA1''
       = Inl (RuntimeError ''GeneALaCart did not return JSON (likely requires authentication).'')"
proof -
  have a: "session_get env_ncbi ''BRCA1''
     = Response \<lparr>content_type = Some ''text/html; charset=utf-8'', json_body = Inl ''Expecting value''\<rparr>"
    by (simp add: env_ncbi_def login_page_def)
  have b: "\<not> sublist ''application/json'' (py_lower ''text/html; charset=utf-8'')"
    by code_simp
  from fetch_gene_from_genecards_non_json [OF a] b
  show ?thesis using a by simp
qed

text \<open>
  C8 as stated fails: a response labelled \<open>text/html\<close> whose body decodes as JSON is
  returned, not refused.
\<close>

theorem fetch_gene_from_genecards_mislabelled_json_returned:
  "fetch_gene_from_genecards env_mislabelled ''BRCA1''
     = Inr (JObj [(''summary'', JStr ''Tumor suppressor'')])
   \<and> content_type \<lparr>content_type = Some ''text/html'',
                     json_body = Inr (JObj [(''summary'', JStr ''Tumor suppressor'')])\<rparr>
       = Some ''text/html''
   \<and> session_get env_mislabelled ''BRCA1''
       = Response \<lparr>content_type = Some ''text/html'',
                    json_body = Inr (JObj [(''summary'', JStr ''Tumor suppressor'')])\<rparr>"
  by code_simp

subsection \<open>The resolver\<close>

lemma get_gene_data_miss_eq:
  assumes "py_upper (py_strip gene) \<noteq> []"
      and "GeneCache_get c (py_upper (py_strip gene)) w = (None, c1, w1)"
  shows "get_gene_data env gene (Some c) w =
           (case cache_miss env c1 (py_upper (py_strip gene)) w1 of
              (r, c', w') \<Rightarrow> (r, Some c', w'))"
  using assms by (simp add: get_gene_data_def get_gene_data_with_def Let_def)

text \<open>
  A call without a cache argument is the call on the freshly constructed default cache.
\<close>

lemma get_gene_data_default_cache:
  assumes "GeneCache_init None w = (Inr c0, w0)"
  shows "get_gene_data env gene None w = get_gene_data env gene (Some c0) w0"
  using assms by (simp add: get_gene_data_def)

lemma cache_miss_after_runtime_error:
  assumes "fetch_gene_from_genecards env key = Inl (RuntimeError m)"
  shows "cache_miss env c key w = after_runtime_error env c key None (emit (CallGenecards key) w)"
  using assms by (simp add: cache_miss_def Let_def)

text \<open>
  C1. On the cache-miss path (the symbol is not blank and the cache lookup returns
  absent), when \<^verbatim>\<open>fetch_gene_from_genecards\<close> raises \<^verbatim>\<open>RuntimeError\<close>: if
  \<^verbatim>\<open>fetch_details_via_ncbi\<close> returns a match, the record returned by \<^verbatim>\<open>get_gene_data\<close>
  has source \<open>ncbi\<close>; if it raises \<^verbatim>\<open>GeneNotFoundError\<close> and
  \<^verbatim>\<open>fetch_gene_info_via_entrez\<close> returns a non-empty dict, the source is \<open>entrez\<close>.
\<close>

theorem get_gene_data_fallback_source:
  assumes "py_upper (py_strip gene) \<noteq> []"
      and "GeneCache_get c (py_upper (py_strip gene)) w = (None, c1, w1)"
      and "fetch_gene_from_genecards env (py_upper (py_strip gene)) = Inl (RuntimeError m)"
  shows "(\<forall>d. fetch_details_via_ncbi env (py_upper (py_strip gene)) = Inr d \<longrightarrow>
            record_field (fst (get_gene_data env gene (Some c) w)) ''source'' = Some (JStr ''ncbi''))
       \<and> (\<forall>m' d. fetch_details_via_ncbi env (py_upper (py_strip gene)) = Inl (GeneNotFoundError m')
                 \<and> fetch_gene_info_via_entrez env (py_upper (py_strip gene)) = Some d \<and> d \<noteq> [] \<longrightarrow>
            record_field (fst (get_gene_data env gene (Some c) w)) ''source'' = Some (JStr ''entrez''))"
proof -
  let ?key = "py_upper (py_strip gene)"
  let ?w2 = "emit (CallGenecards ?key) w1"
  have eq: "fst (get_gene_data env gene (Some c) w) = fst (after_runtime_error env c1 ?key None ?w2)"
    by (simp add: get_gene_data_miss_eq [OF assms(1,2)] cache_miss_after_runtime_error [OF assms(3)]
          split_beta)
  have ncbi: "record_field (fst (after_runtime_error env c1 ?key None ?w2)) ''source'' = Some (JStr ''ncbi'')"
    if "fetch_details_via_ncbi env ?key = Inr d" for d
    using that
    by (simp add: after_runtime_error_def resolve_after_runtime_error_def Let_def
          record_field_normalize_and_store map_of_out_source)
  have entrez: "record_field (fst (after_runtime_error env c1 ?key None ?w2)) ''source'' = Some (JStr ''entrez'')"
    if "fetch_details_via_ncbi env ?key = Inl (GeneNotFoundError m')"
       "fetch_gene_info_via_entrez env ?key = Some d" "d \<noteq> []" for m' d
    using that
    by (simp add: after_runtime_error_def resolve_after_runtime_error_def Let_def details_truthy_def
          record_field_normalize_and_store map_of_out_source)
  show ?thesis using ncbi entrez by (simp add: eq)
qed

theorem get_gene_data_fallback_source_witness:
  "py_upper (py_strip '' brca1 '') \<noteq> []
   \<and> GeneCache_get cache0 (py_upper (py_strip '' brca1 '')) world0 = (None, cache0, world0)
   \<and> fetch_gene_from_genecards env_ncbi (py_upper (py_strip '' brca1 ''))
       = Inl (RuntimeError ''GeneALaCart did not return JSON (likely requires authentication).'')
   \<and> fetch_details_via_ncbi env_ncbi (py_upper (py_strip '' brca1 ''))
       = Inr [(''symbol'', JStr ''BRCA1''), (''description'', JStr ''BRCA1 DNA repair associated''),
              (''geneid'', JStr ''672''), (''chromosome'', JStr ''17''),
              (''map_location'', JStr ''17q21.31'')]
   \<and> record_field (fst (get_gene_data env_ncbi '' brca1 '' (Some cache0) world0)) ''source''
       = Some (JStr ''ncbi'')
   \<and> fetch_gene_from_genecards env_entrez (py_upper (py_strip '' brca1 ''))
       = Inl (RuntimeError ''GeneALaCart did not return JSON (likely requires authentication).'')
   \<and> fetch_details_via_ncbi env_entrez (py_upper (py_strip '' brca1 ''))
       = Inl (GeneNotFoundError (''Gene '' @ quoted ''BRCA1'' @ '' not found in NCBI database''))
   \<and> fetch_gene_info_via_entrez env_entrez (py_upper (py_strip '' brca1 '')) = Some entrez_brca1
   \<and> entrez_brca1 \<noteq> []
   \<and> record_field (fst (get_gene_data env_entrez '' brca1 '' (Some cache0) world0)) ''source''
       = Some (JStr ''entrez'')"
proof -
  have k: "py_upper (py_strip '' brca1 '') = ''BRCA1''" by code_simp
  have ne: "py_upper (py_strip '' brca1 '') \<noteq> []" by (simp add: k)
  have miss: "GeneCache_get cache0 (py_upper (py_strip '' brca1 '')) world0 = (None, cache0, world0)"
    by (simp add: GeneCache_get_def cache0_def)
  have p1: "fetch_gene_from_genecards env_ncbi (py_upper (py_strip '' brca1 ''))
       = Inl (RuntimeError ''GeneALaCart did not return JSON (likely requires authentication).'')"
    unfolding k by code_simp
  have n1: "fetch_details_via_ncbi env_ncbi (py_upper (py_strip '' brca1 ''))
       = Inr [(''symbol'', JStr ''BRCA1''), (''description'', JStr ''BRCA1 DNA repair associated''),
              (''geneid'', JStr ''672''), (''chromosome'', JStr ''17''),
              (''map_location'', JStr ''17q21.31'')]"
    unfolding k by code_simp
  have p2: "fetch_gene_from_genecards env_entrez (py_upper (py_strip '' brca1 ''))
       = Inl (RuntimeError ''GeneALaCart did not return JSON (likely requires authentication).'')"
    unfolding k by code_simp
  have n2: "fetch_details_via_ncbi env_entrez (py_upper (py_strip '' brca1 ''))
       = Inl (GeneNotFoundError (''Gene '' @ quoted ''BRCA1'' @ '' not found in NCBI database''))"
    unfolding k by code_simp
  have e2: "fetch_gene_info_via_entrez env_entrez (py_upper (py_strip '' brca1 '')) = Some entrez_brca1"
    by (simp add: env_entrez_def)
  have e3: "entrez_brca1 \<noteq> []" by (simp add: entrez_brca1_def)
  from get_gene_data_fallback_source [OF ne miss p1] n1
  have r1: "record_field (fst (get_gene_data env_ncbi '' brca1 '' (Some cache0) world0)) ''source''
       = Some (JStr ''ncbi'')" by blast
  from get_gene_data_fallback_source [OF ne miss p2] n2 e2 e3
  have r2: "record_field (fst (get_gene_data env_entrez '' brca1 '' (Some cache0) world0)) ''source''
       = Some (JStr ''entrez'')" by blast
  from ne miss p1 n1 r1 p2 n2 e2 e3 r2 show ?thesis by blast
qed


text \<open>
  C2. For a symbol whose key is not in the cache, when the portal adapter raises
  \<^verbatim>\<open>RuntimeError\<close>, \<^verbatim>\<open>fetch_details_via_ncbi\<close> raises \<^verbatim>\<open>GeneNotFoundError\<close> and
  \<^verbatim>\<open>fetch_gene_info_via_entrez\<close> returns \<^verbatim>\<open>None\<close>, \<^verbatim>\<open>get_gene_data\<close> raises
  \<^verbatim>\<open>GeneNotFoundError\<close>; the cache object is unchanged and the world differs only by
  the three adapter calls in its log: no file is written.
\<close>

theorem get_gene_data_not_found_leaves_cache:
  assumes "py_upper (py_strip gene) \<noteq> []"
      and "map_of (data c) (py_upper (py_strip gene)) = None"
      and "fetch_gene_from_genecards env (py_upper (py_strip gene)) = Inl (RuntimeError m)"
      and "fetch_details_via_ncbi env (py_upper (py_strip gene)) = Inl (GeneNotFoundError m')"
      and "fetch_gene_info_via_entrez env (py_upper (py_strip gene)) = None"
  shows "get_gene_data env gene (Some c) w
           = (Inl (GeneNotFoundError (''Gene '' @ quoted (py_upper (py_strip gene)) @ '' not found'')),
              Some c,
              w\<lparr>log := log w @ [CallGenecards (py_upper (py_strip gene)),
                                 CallDetailsNcbi (py_upper (py_strip gene)),
                                 CallInfoEntrez (py_upper (py_strip gene))]\<rparr>)"
proof -
  let ?key = "py_upper (py_strip gene)"
  have miss: "GeneCache_get c ?key w = (None, c, w)"
    using assms(2) by (simp add: GeneCache_get_def py_upper_idem)
  show ?thesis
    using assms(3,4,5)
    by (simp add: get_gene_data_miss_eq [OF assms(1) miss] cache_miss_after_runtime_error [OF assms(3)]
          after_runtime_error_def resolve_after_runtime_error_def Let_def details_truthy_def
          gene_not_found_def emit_def)
qed

theorem get_gene_data_not_found_leaves_cache_witness:
  "py_upper (py_strip ''FAKEGENE123'') \<noteq> []
   \<and> map_of (data cache_brca1) (py_upper (py_strip ''FAKEGENE123'')) = None
   \<and> fetch_gene_from_genecards env_nothing (py_upper (py_strip ''FAKEGENE123''))
       = Inl (RuntimeError ''GeneALaCart did not return JSON (likely requires authentication).'')
   \<and> fetch_details_via_ncbi env_nothing (py_upper (py_strip ''FAKEGENE123''))
       = Inl (GeneNotFoundError (''Gene '' @ quoted ''FAKEGENE123'' @ '' not found in NCBI database''))
   \<and> fetch_gene_info_via_entrez env_nothing (py_upper (py_strip ''FAKEGENE123'')) = None
   \<and> get_gene_data env_nothing ''FAKEGENE123'' (Some cache_brca1) world0
       = (Inl (GeneNotFoundError (''Gene '' @ quoted ''FAKEGENE123'' @ '' not found'')),
          Some cache_brca1,
          world0\<lparr>log := [CallGenecards ''FAKEGENE123'', CallDetailsNcbi ''FAKEGENE123'',
                          CallInfoEntrez ''FAKEGENE123'']\<rparr>)"
proof -
  have k: "py_upper (py_strip ''FAKEGENE123'') = ''FAKEGENE123''" by code_simp
  have ne: "py_upper (py_strip ''FAKEGENE123'') \<noteq> []" by (simp add: k)
  have miss: "map_of (data cache_brca1) (py_upper (py_strip ''FAKEGENE123'')) = None"
    by (simp add: k cache_brca1_def)
  have p: "fetch_gene_from_genecards env_nothing (py_upper (py_strip ''FAKEGENE123''))
       = Inl (RuntimeError ''GeneALaCart did not return JSON (likely requires authentication).'')"
    unfolding k by code_simp
  have n: "fetch_details_via_ncbi env_nothing (py_upper (py_strip ''FAKEGENE123''))
       = Inl (GeneNotFoundError (''Gene '' @ quoted ''FAKEGENE123'' @ '' not found in NCBI database''))"
    unfolding k by code_simp
  have e: "fetch_gene_info_via_entrez env_nothing (py_upper (py_strip ''FAKEGENE123'')) = None"
    by (simp add: env_nothing_def)
  have l: "log world0 = []" by (simp add: world0_def)
  from get_gene_data_not_found_leaves_cache [OF ne miss p n e, of world0]
  show ?thesis using ne miss p n e by (simp add: k l)
qed

lemma resolve_with_summary_returns:
  "\<exists>details source w'. resolve_with_summary env key w = (Inr (details, source), w')"
proof (cases "fetch_details_via_ncbi env key")
  case (Inl e)
  then obtain m where "e = GeneNotFoundError m"
    using fetch_details_via_ncbi_raises by blast
  with Inl show ?thesis by (simp add: resolve_with_summary_def Let_def)
next
  case (Inr d)
  then show ?thesis by (simp add: resolve_with_summary_def Let_def)
qed

lemma resolve_with_summary_nothing:
  assumes "fetch_details_via_ncbi env key = Inl (GeneNotFoundError m)"
      and "fetch_gene_info_via_entrez env key = None"
  shows "resolve_with_summary env key w
           = (Inr (None, ''genecards''), emit (CallInfoEntrez key) (emit (CallDetailsNcbi key) w))"
  using assms by (simp add: resolve_with_summary_def Let_def details_truthy_def)

lemma cache_miss_with_summary:
  assumes "fetch_gene_from_genecards env key = Inr gc"
      and "extract_summary key gc = Some s"
      and "resolve_with_summary env key (emit (CallGenecards key) w) = (Inr (details, source), w2)"
  shows "cache_miss env c key w = normalize_and_store env c key details source (Some s) w2"
  using assms by (simp add: cache_miss_def Let_def)

lemma map_of_out_nothing:
  "map_of (out_before_store env key None source summary t) ''geneid'' = Some JNull"
  "map_of (out_before_store env key None source summary t) ''chromosome'' = Some JNull"
  "map_of (out_before_store env key None source summary t) ''map_location'' = Some JNull"
  by (simp_all add: out_before_store_def map_of_with_portal_summary update_conv' map_of_with_urls
        with_details_def initial_out_def)

lemma map_of_out_summary:
  "s \<noteq> [] \<Longrightarrow> map_of (out_before_store env key details source (Some s) t) ''summary''
                  = Some (JStr s)"
  by (simp add: out_before_store_def map_of_with_portal_summary)

text \<open>
  C10 (as the code has it). On the cache-miss path, when the portal adapter returns a
  payload from which a summary string is extracted, \<^verbatim>\<open>get_gene_data\<close> returns a record
  and stores it under the key, whatever the two public lookups do; it never raises. When
  the first lookup raises \<^verbatim>\<open>GeneNotFoundError\<close> and the second returns \<^verbatim>\<open>None\<close>, the
  record's source is \<open>genecards\<close>, its geneid, chromosome and map_location are null,
  and its summary is the extracted summary provided that summary is not empty.
\<close>

theorem get_gene_data_portal_summary_kept:
  assumes "py_upper (py_strip gene) \<noteq> []"
      and "GeneCache_get c (py_upper (py_strip gene)) w = (None, c1, w1)"
      and "fetch_gene_from_genecards env (py_upper (py_strip gene)) = Inr gc"
      and "extract_summary (py_upper (py_strip gene)) gc = Some s"
  shows "(\<exists>r c' w'. get_gene_data env gene (Some c) w = (Inr (JObj r), Some c', w')
                   \<and> map_of (data c') (py_upper (py_strip gene)) = Some (JObj r))
       \<and> ((\<exists>m. fetch_details_via_ncbi env (py_upper (py_strip gene)) = Inl (GeneNotFoundError m))
            \<and> fetch_gene_info_via_entrez env (py_upper (py_strip gene)) = None \<longrightarrow>
            record_field (fst (get_gene_data env gene (Some c) w)) ''source'' = Some (JStr ''genecards'')
          \<and> record_field (fst (get_gene_data env gene (Some c) w)) ''geneid'' = Some JNull
          \<and> record_field (fst (get_gene_data env gene (Some c) w)) ''chromosome'' = Some JNull
          \<and> record_field (fst (get_gene_data env gene (Some c) w)) ''map_location'' = Some JNull
          \<and> (s \<noteq> [] \<longrightarrow>
               record_field (fst (get_gene_data env gene (Some c) w)) ''summary'' = Some (JStr s)))"
proof -
  let ?key = "py_upper (py_strip gene)"
  let ?w2 = "emit (CallGenecards ?key) w1"
  obtain details source w3 where rs: "resolve_with_summary env ?key ?w2 = (Inr (details, source), w3)"
    using resolve_with_summary_returns by blast
  have cm: "cache_miss env c1 ?key w1 = normalize_and_store env c1 ?key details source (Some s) w3"
    by (rule cache_miss_with_summary [OF assms(3,4) rs])
  have g: "get_gene_data env gene (Some c) w =
             (case normalize_and_store env c1 ?key details source (Some s) w3 of
                (r, c', w') \<Rightarrow> (r, Some c', w'))"
    by (simp add: get_gene_data_miss_eq [OF assms(1,2)] cm)
  obtain c' w' where ns: "normalize_and_store env c1 ?key details source (Some s) w3
      = (Inr (JObj (stored_record env ?key details source (Some s) w3)), c', w')"
     and dc: "data c' = AList.update (py_upper ?key)
                   (JObj (stored_record env ?key details source (Some s) w3)) (data c1)"
    using normalize_and_store_eq [of env c1 ?key details source "Some s" w3] by blast
  have first: "\<exists>r c' w'. get_gene_data env gene (Some c) w = (Inr (JObj r), Some c', w')
                   \<and> map_of (data c') ?key = Some (JObj r)"
    by (simp add: g ns dc update_conv' py_upper_idem)
  have second: "record_field (fst (get_gene_data env gene (Some c) w)) ''source'' = Some (JStr ''genecards'')
          \<and> record_field (fst (get_gene_data env gene (Some c) w)) ''geneid'' = Some JNull
          \<and> record_field (fst (get_gene_data env gene (Some c) w)) ''chromosome'' = Some JNull
          \<and> record_field (fst (get_gene_data env gene (Some c) w)) ''map_location'' = Some JNull
          \<and> (s \<noteq> [] \<longrightarrow>
               record_field (fst (get_gene_data env gene (Some c) w)) ''summary'' = Some (JStr s))"
    if "fetch_details_via_ncbi env ?key = Inl (GeneNotFoundError m)"
       "fetch_gene_info_via_entrez env ?key = None" for m
  proof -
    have "details = None" "source = ''genecards''"
      using rs resolve_with_summary_nothing [OF that, of ?w2] by simp_all
    then have f: "fst (get_gene_data env gene (Some c) w)
                    = fst (normalize_and_store env c1 ?key None ''genecards'' (Some s) w3)"
      by (simp add: g split_beta)
    show ?thesis
      by (simp add: f record_field_normalize_and_store map_of_out_source map_of_out_nothing
            map_of_out_summary)
  qed
  from first second show ?thesis by blast
qed

theorem get_gene_data_portal_summary_kept_witness:
  "py_upper (py_strip '' brca1 '') \<noteq> []
   \<and> GeneCache_get cache0 (py_upper (py_strip '' brca1 '')) world0 = (None, cache0, world0)
   \<and> fetch_gene_from_genecards (env_portal ''Tumor suppressor'') (py_upper (py_strip '' brca1 ''))
       = Inr (JObj [(''summary'', JStr ''Tumor suppressor'')])
   \<and> extract_summary (py_upper (py_strip '' brca1 '')) (JObj [(''summary'', JStr ''Tumor suppressor'')])
       = Some ''Tumor suppressor''
   \<and> fetch_details_via_ncbi (env_portal ''Tumor suppressor'') (py_upper (py_strip '' brca1 ''))
       = Inl (GeneNotFoundError (''Gene '' @ quoted ''BRCA1'' @ '' not found in NCBI database''))
   \<and> fetch_gene_info_via_entrez (env_portal ''Tumor suppressor'') (py_upper (py_strip '' brca1 '')) = None
   \<and> record_field (fst (get_gene_data (env_portal ''Tumor suppressor'') '' brca1 '' (Some cache0) world0))
        ''summary'' = Some (JStr ''Tumor suppressor'')
   \<and> record_field (fst (get_gene_data (env_portal ''Tumor suppressor'') '' brca1 '' (Some cache0) world0))
        ''source'' = Some (JStr ''genecards'')
   \<and> record_field (fst (get_gene_data (env_portal ''Tumor suppressor'') '' brca1 '' (Some cache0) world0))
        ''geneid'' = Some JNull"
proof -
  have k: "py_upper (py_strip '' brca1 '') = ''BRCA1''" by code_simp
  have ne: "py_upper (py_strip '' brca1 '') \<noteq> []" by (simp add: k)
  have miss: "GeneCache_get cache0 (py_upper (py_strip '' brca1 '')) world0 = (None, cache0, world0)"
    by (simp add: GeneCache_get_def cache0_def)
  have p: "fetch_gene_from_genecards (env_portal ''Tumor suppressor'') (py_upper (py_strip '' brca1 ''))
       = Inr (JObj [(''summary'', JStr ''Tumor suppressor'')])"
    unfolding k by code_simp
  have x: "extract_summary (py_upper (py_strip '' brca1 '')) (JObj [(''summary'', JStr ''Tumor suppressor'')])
       = Some ''Tumor suppressor''"
    by (simp add: extract_summary_def)
  have n: "fetch_details_via_ncbi (env_portal ''Tumor suppressor'') (py_upper (py_strip '' brca1 ''))
       = Inl (GeneNotFoundError (''Gene '' @ quoted ''BRCA1'' @ '' not found in NCBI database''))"
    unfolding k by code_simp
  have e: "fetch_gene_info_via_entrez (env_portal ''Tumor suppressor'') (py_upper (py_strip '' brca1 '')) = None"
    by (simp add: env_portal_def env_nothing_def)
  have s: "''Tumor suppressor'' \<noteq> []" by simp
  from get_gene_data_portal_summary_kept [OF ne miss p x, THEN conjunct2] s n e
  have "record_field (fst (get_gene_data (env_portal ''Tumor suppressor'') '' brca1 '' (Some cache0) world0))
        ''summary'' = Some (JStr ''Tumor suppressor'')
   \<and> record_field (fst (get_gene_data (env_portal ''Tumor suppressor'') '' brca1 '' (Some cache0) world0))
        ''source'' = Some (JStr ''genecards'')
   \<and> record_field (fst (get_gene_data (env_portal ''Tumor suppressor'') '' brca1 '' (Some cache0) world0))
        ''geneid'' = Some JNull" by blast
  with ne miss p x n e show ?thesis by blast
qed

text \<open>
  C10 as stated fails for an empty extracted summary: line 338 tests \<^verbatim>\<open>summary is None\<close>
  but line 417 tests the truth value, so the record's summary stays null.
\<close>

theorem get_gene_data_empty_portal_summary_dropped:
  "fetch_gene_from_genecards (env_portal []) ''BRCA1'' = Inr (JObj [(''summary'', JStr [])])
   \<and> extract_summary ''BRCA1'' (JObj [(''summary'', JStr [])]) = Some []
   \<and> record_field (fst (get_gene_data (env_portal []) ''BRCA1'' (Some cache0) world0)) ''summary''
       = Some JNull"
  by code_simp

lemma py_strip_blank: "list_all is_space gene \<Longrightarrow> py_strip gene = []"
proof -
  assume "list_all is_space gene"
  then have d: "dropWhile is_space gene = []" by (induction gene) simp_all
  show ?thesis unfolding py_strip_def d by simp
qed

text \<open>
  C3 (as the code has it). For an empty or whitespace-only symbol \<^verbatim>\<open>get_gene_data\<close>
  raises \<^verbatim>\<open>ValueError\<close>. With a cache argument it does so before anything else: the
  cache and the world, log included, are unchanged. Without a cache argument the default
  \<^verbatim>\<open>GeneCache()\<close> is constructed first (lines 293--294), so the only events before the
  failure are those of the constructor on the default path (create the parent directory,
  test that the file exists, read it); no adapter is called and no file is written.
\<close>

theorem get_gene_data_blank_symbol:
  assumes "list_all is_space gene"
  shows "get_gene_data env gene (Some c) w = (Inl (ValueError ''Empty gene symbol''), Some c, w)
       \<and> get_gene_data env gene None w =
           (case GeneCache_init None w of
              (Inl e, w1) \<Rightarrow> (Inl e, None, w1)
            | (Inr c0, w1) \<Rightarrow> (Inl (ValueError ''Empty gene symbol''), Some c0, w1))
       \<and> files (snd (snd (get_gene_data env gene None w))) = files w
       \<and> (\<exists>evs. log (snd (snd (get_gene_data env gene None w))) = log w @ evs
                \<and> set evs \<subseteq> {MkdirParent DEFAULT_CACHE_PATH, PathExists DEFAULT_CACHE_PATH,
                                OpenRead DEFAULT_CACHE_PATH})"
proof -
  have k: "py_upper (py_strip gene) = []"
    by (simp add: py_strip_blank [OF assms] py_upper_def)
  have a: "get_gene_data env gene (Some c) w = (Inl (ValueError ''Empty gene symbol''), Some c, w)" for c w
    by (simp add: get_gene_data_def get_gene_data_with_def k)
  have b: "get_gene_data env gene None w =
           (case GeneCache_init None w of
              (Inl e, w1) \<Rightarrow> (Inl e, None, w1)
            | (Inr c0, w1) \<Rightarrow> (Inl (ValueError ''Empty gene symbol''), Some c0, w1))"
    by (simp add: get_gene_data_def get_gene_data_with_def k split: prod.splits sum.splits)
  have c: "files (snd (snd (get_gene_data env gene None w))) = files w"
    by (simp add: b GeneCache_init_def GeneCache_load_def open_read_def emit_def Let_def
          split: prod.splits sum.splits file_state.splits)
  have d: "\<exists>evs. log (snd (snd (get_gene_data env gene None w))) = log w @ evs
                \<and> set evs \<subseteq> {MkdirParent DEFAULT_CACHE_PATH, PathExists DEFAULT_CACHE_PATH,
                                OpenRead DEFAULT_CACHE_PATH}"
    by (auto simp: b GeneCache_init_def GeneCache_load_def open_read_def emit_def Let_def
          split: prod.splits sum.splits file_state.splits)
  from a b c d show ?thesis by blast
qed

theorem get_gene_data_blank_symbol_witness:
  "list_all is_space ''   ''
   \<and> get_gene_data env_ncbi ''   '' (Some cache_brca1) world0
       = (Inl (ValueError ''Empty gene symbol''), Some cache_brca1, world0)
   \<and> files (snd (snd (get_gene_data env_ncbi ''   '' None world_with_file))) = files world_with_file"
proof -
  have b: "list_all is_space ''   ''" by code_simp
  from get_gene_data_blank_symbol [OF b, of env_ncbi cache_brca1 world0]
       get_gene_data_blank_symbol [OF b, of env_ncbi cache_brca1 world_with_file]
  show ?thesis using b by blast
qed

text \<open>
  C3 as stated fails: called without a cache argument while a cache file exists, the
  function reads that file before it raises.
\<close>

theorem get_gene_data_blank_symbol_reads_default_cache:
  "log world_with_file = []
   \<and> fst (get_gene_data env_ncbi ''   '' None world_with_file) = Inl (ValueError ''Empty gene symbol'')
   \<and> log (snd (snd (get_gene_data env_ncbi ''   '' None world_with_file)))
       = [MkdirParent ''cache.json'', PathExists ''cache.json'', OpenRead ''cache.json'']"
  by code_simp



subsection \<open>Repeated calls\<close>

lemma py_lower_ascii: "is_ascii s \<Longrightarrow> py_lower s = map char_lower s"
  by (induction s rule: py_lower.induct) (auto simp: is_ascii_def)

lemma key_of_lower:
  "is_ascii s \<Longrightarrow> py_upper (py_strip (py_lower s)) = py_upper (py_strip s)"
  by (simp add: py_lower_ascii py_upper_def py_strip_map [OF is_space_lower] char_upper_lower)

lemma key_of_upper:
  "is_ascii s \<Longrightarrow> py_upper (py_strip (py_upper s)) = py_upper (py_strip s)"
  by (simp add: py_upper_def py_strip_map [OF is_space_upper] char_upper_idem)

lemma same_record_refl: "same_record v v"
  by (cases v) (simp_all add: same_record_def list_all_iff)

lemma same_record_dict: "map_of x = map_of y \<Longrightarrow> same_record (JObj x) (JObj y)"
  by (simp add: same_record_def list_all_iff)

lemma cache_hit_settled:
  assumes "no_enrich env v"
  shows "\<exists>w'. cache_hit env c key v w = (Inr v, c, w')"
  using assms by (cases v) (auto simp: cache_hit_def no_enrich_def Let_def)

lemma GeneCache_get_settled:
  assumes "settled env c key v" and "py_upper key = key"
  shows "GeneCache_get c key w = (Some v, c, w)"
  using assms by (simp add: settled_def GeneCache_get_def)

lemma settled_call:
  assumes "settled env c key v" and "py_upper (py_strip g) = key" and "key \<noteq> []"
  shows "\<exists>w'. get_gene_data_with env g c w = (Inr v, c, w')"
proof -
  have u: "py_upper key = key" using assms(2) by (auto simp: py_upper_idem)
  have ne: "no_enrich env v" using assms(1) by (simp add: settled_def)
  obtain w' where "cache_hit env c key v w = (Inr v, c, w')"
    using cache_hit_settled [OF ne] by blast
  then show ?thesis
    using assms(2,3) GeneCache_get_settled [OF assms(1) u, of w]
    by (simp add: get_gene_data_with_def Let_def)
qed

lemma GeneCache_get_cases:
  "(\<exists>v. GeneCache_get c key w = (Some v, c, w) \<and> map_of (data c) (py_upper key) = Some v
         \<and> py_truthy v \<and> \<not> is_legacy v)
   \<or> (\<exists>c1 w1. GeneCache_get c key w = (None, c1, w1)
         \<and> (\<forall>w'. GeneCache_get c1 key w' = (None, c1, w')))"
proof (cases "map_of (data c) (py_upper key)")
  case None
  then show ?thesis by (simp add: GeneCache_get_def)
next
  case (Some v)
  show ?thesis
  proof (cases "py_truthy v")
    case False
    with Some show ?thesis by (simp add: GeneCache_get_def)
  next
    case True
    show ?thesis
    proof (cases "is_legacy v")
      case False
      with Some True show ?thesis by (simp add: GeneCache_get_def)
    next
      case leg: True
      let ?c1 = "c\<lparr>data := AList.delete (py_upper key) (data c)\<rparr>"
      have "GeneCache_get c key w = (None, ?c1, GeneCache_save ?c1 w)"
        using Some True leg by (simp add: GeneCache_get_def Let_def)
      moreover have "\<forall>w'. GeneCache_get ?c1 key w' = (None, ?c1, w')"
        by (simp add: GeneCache_get_def delete_conv')
      ultimately show ?thesis by blast
    qed
  qed
qed

lemma resolve_after_runtime_error_outcome:
  "(\<exists>e. \<forall>w. \<exists>w'. resolve_after_runtime_error env key w = (Inl e, w'))
   \<or> (\<exists>ds. \<forall>w. \<exists>w'. resolve_after_runtime_error env key w = (Inr ds, w'))"
proof (cases "fetch_details_via_ncbi env key")
  case (Inr d)
  then show ?thesis by (simp add: resolve_after_runtime_error_def Let_def)
next
  case (Inl e)
  then obtain m where e: "e = GeneNotFoundError m"
    using fetch_details_via_ncbi_raises by blast
  show ?thesis
  proof (cases "details_truthy (fetch_gene_info_via_entrez env key)")
    case True
    with Inl e show ?thesis by (simp add: resolve_after_runtime_error_def Let_def)
  next
    case False
    with Inl e show ?thesis by (simp add: resolve_after_runtime_error_def Let_def)
  qed
qed

lemma resolve_without_summary_outcome:
  "(\<exists>m. \<forall>w. \<exists>w'. resolve_without_summary env key w = (Inl (GeneNotFoundError m), w'))
   \<or> (\<exists>ds. \<forall>w. \<exists>w'. resolve_without_summary env key w = (Inr ds, w'))"
proof (cases "fetch_details_via_ncbi env key")
  case (Inr d)
  then show ?thesis by (simp add: resolve_without_summary_def Let_def)
next
  case (Inl e)
  then obtain m where e: "e = GeneNotFoundError m"
    using fetch_details_via_ncbi_raises by blast
  show ?thesis
  proof (cases "details_truthy (fetch_gene_info_via_entrez env key)")
    case True
    with Inl e show ?thesis by (simp add: resolve_without_summary_def Let_def)
  next
    case False
    with Inl e show ?thesis
      by (simp add: resolve_without_summary_def Let_def gene_not_found_def)
  qed
qed

lemma resolve_with_summary_outcome:
  "\<exists>ds. \<forall>w. \<exists>w'. resolve_with_summary env key w = (Inr ds, w')"
proof (cases "fetch_details_via_ncbi env key")
  case (Inr d)
  then show ?thesis by (simp add: resolve_with_summary_def Let_def)
next
  case (Inl e)
  then obtain m where e: "e = GeneNotFoundError m"
    using fetch_details_via_ncbi_raises by blast
  with Inl show ?thesis by (simp add: resolve_with_summary_def Let_def)
qed

lemma after_runtime_error_outcome:
  "(\<exists>e. \<forall>c w. \<exists>w'. after_runtime_error env c key summary w = (Inl e, c, w'))
   \<or> (\<exists>details source. \<forall>c w. \<exists>w'. after_runtime_error env c key summary w
          = normalize_and_store env c key details source summary w')"
  using resolve_after_runtime_error_outcome [of env key]
proof
  assume "\<exists>e. \<forall>w. \<exists>w'. resolve_after_runtime_error env key w = (Inl e, w')"
  then obtain e where e: "\<forall>w. \<exists>w'. resolve_after_runtime_error env key w = (Inl e, w')" by blast
  have "\<exists>w'. after_runtime_error env c key summary w = (Inl e, c, w')" for c w
  proof -
    from e obtain w' where "resolve_after_runtime_error env key w = (Inl e, w')" by blast
    then show ?thesis by (simp add: after_runtime_error_def)
  qed
  then show ?thesis by blast
next
  assume "\<exists>ds. \<forall>w. \<exists>w'. resolve_after_runtime_error env key w = (Inr ds, w')"
  then obtain details source
    where d: "\<forall>w. \<exists>w'. resolve_after_runtime_error env key w = (Inr (details, source), w')"
    by (metis surj_pair)
  have "\<exists>w'. after_runtime_error env c key summary w
          = normalize_and_store env c key details source summary w'" for c w
  proof -
    from d obtain w' where "resolve_after_runtime_error env key w = (Inr (details, source), w')"
      by blast
    then show ?thesis by (auto simp: after_runtime_error_def)
  qed
  then show ?thesis by blast
qed

lemma cache_miss_outcome:
  "(\<exists>e. \<forall>c w. \<exists>w'. cache_miss env c key w = (Inl e, c, w'))
   \<or> (\<exists>details source summary. \<forall>c w. \<exists>w'. cache_miss env c key w
          = normalize_and_store env c key details source summary w')"
proof (cases "fetch_gene_from_genecards env key")
  case (Inl e)
  then obtain m where e: "e = RuntimeError m"
    using fetch_gene_from_genecards_raises by blast
  have eq: "cache_miss env c key w
              = after_runtime_error env c key None (emit (CallGenecards key) w)" for c w
    using Inl e by (simp add: cache_miss_def Let_def)
  from after_runtime_error_outcome [of env key None] show ?thesis
    unfolding eq by blast
next
  case (Inr gc)
  show ?thesis
  proof (cases "extract_summary key gc")
    case None
    have eq: "cache_miss env c key w =
        (case resolve_without_summary env key (emit (CallGenecards key) w) of
           (Inl (RuntimeError x), w2) \<Rightarrow> after_runtime_error env c key None w2
         | (Inl e, w2) \<Rightarrow> (Inl e, c, w2)
         | (Inr (details, source), w2) \<Rightarrow> normalize_and_store env c key details source None w2)"
      for c w
      using Inr None by (simp add: cache_miss_def Let_def)
    from resolve_without_summary_outcome [of env key] show ?thesis
    proof
      assume "\<exists>m. \<forall>w. \<exists>w'. resolve_without_summary env key w = (Inl (GeneNotFoundError m), w')"
      then obtain m
        where m: "\<forall>w. \<exists>w'. resolve_without_summary env key w = (Inl (GeneNotFoundError m), w')"
        by blast
      have "\<exists>w'. cache_miss env c key w = (Inl (GeneNotFoundError m), c, w')" for c w
      proof -
        from m obtain w' where "resolve_without_summary env key (emit (CallGenecards key) w)
                                  = (Inl (GeneNotFoundError m), w')" by blast
        then show ?thesis by (simp add: eq)
      qed
      then show ?thesis by blast
    next
      assume "\<exists>ds. \<forall>w. \<exists>w'. resolve_without_summary env key w = (Inr ds, w')"
      then obtain details source
        where d: "\<forall>w. \<exists>w'. resolve_without_summary env key w = (Inr (details, source), w')"
        by (metis surj_pair)
      have "\<exists>w'. cache_miss env c key w = normalize_and_store env c key details source None w'"
        for c w
      proof -
        from d obtain w' where "resolve_without_summary env key (emit (CallGenecards key) w)
                                  = (Inr (details, source), w')" by blast
        then show ?thesis by (auto simp: eq)
      qed
      then show ?thesis by blast
    qed
  next
    case (Some s)
    have eq: "cache_miss env c key w =
        (case resolve_with_summary env key (emit (CallGenecards key) w) of
           (Inl (RuntimeError x), w2) \<Rightarrow> after_runtime_error env c key (Some s) w2
         | (Inl e, w2) \<Rightarrow> (Inl e, c, w2)
         | (Inr (details, source), w2) \<Rightarrow> normalize_and_store env c key details source (Some s) w2)"
      for c w
      using Inr Some by (simp add: cache_miss_def Let_def)
    from resolve_with_summary_outcome [of env key] obtain details source
      where d: "\<forall>w. \<exists>w'. resolve_with_summary env key w = (Inr (details, source), w')"
      by (metis surj_pair)
    have "\<exists>w'. cache_miss env c key w = normalize_and_store env c key details source (Some s) w'"
      for c w
    proof -
      from d obtain w' where "resolve_with_summary env key (emit (CallGenecards key) w)
                                = (Inr (details, source), w')" by blast
      then show ?thesis by (auto simp: eq)
    qed
    then show ?thesis by blast
  qed
qed

lemma no_enrich_stored_record:
  "no_enrich env (JObj (stored_record env key details source summary w))"
proof -
  let ?out1 = "with_urls env (with_details key details (initial_out key source (clock w (ticks w))))"
  let ?g = "dict_get ?out1 ''geneid''"
  let ?x = "if py_truthy ?g \<and> py_truthy (fetch_summary_from_entrez env ?g)
            then fetch_summary_from_entrez env ?g else JNull"
  let ?r = "stored_record env key details source summary w"
  have g: "dict_get ?r ''geneid'' = ?g"
    by (simp add: dict_get_def map_of_stored_record out_before_store_def
          map_of_with_portal_summary update_conv')
  have x: "dict_get ?r ''entrez_summary'' = ?x"
    by (simp add: dict_get_def map_of_stored_record out_before_store_def
          map_of_with_portal_summary update_conv' Let_def)
  show ?thesis
    unfolding no_enrich_def json.case g x by auto
qed

lemma cache_hit_enrich:
  assumes "py_truthy (dict_get d ''geneid'')" and "dict_get d ''entrez_summary'' = JNull"
      and "py_truthy (fetch_summary_from_entrez env (dict_get d ''geneid''))"
  shows "cache_hit env c key (JObj d) w =
           (Inr (JObj (AList.update ''entrez_summary''
                         (fetch_summary_from_entrez env (dict_get d ''geneid'')) d)),
            fst (GeneCache_set c key
                   (AList.update ''entrez_summary''
                      (fetch_summary_from_entrez env (dict_get d ''geneid'')) d)
                   (emit (CallSummaryEntrez (dict_get d ''geneid'')) w)),
            snd (GeneCache_set c key
                   (AList.update ''entrez_summary''
                      (fetch_summary_from_entrez env (dict_get d ''geneid'')) d)
                   (emit (CallSummaryEntrez (dict_get d ''geneid'')) w)))"
  using assms by (simp add: cache_hit_def Let_def split_beta)

lemma map_of_enriched:
  assumes "distinct (map fst d)"
  shows "map_of (dict_merge [(''fetched_at'', JNum t)] (AList.update ''entrez_summary'' e d)) k
           = (if k = ''fetched_at'' \<and> \<not> dict_has d ''fetched_at'' then Some (JNum t)
              else ((map_of d)(''entrez_summary'' \<mapsto> e)) k)"
proof -
  have dd: "distinct (map fst (AList.update ''entrez_summary'' e d))"
    using assms by (rule distinct_update)
  show ?thesis
    by (auto simp: map_of_dict_merge_distinct [OF dd] update_conv' map_add_def dict_has_def
             split: option.splits)
qed

lemma cache_hit_outcome:
  assumes "map_of (data c) key = Some v" and "py_truthy v" and "\<not> is_legacy v"
      and "py_upper key = key"
      and "\<forall>d. v = JObj d \<longrightarrow> distinct (map fst d) \<and> dict_has d ''fetched_at''"
      and "cache_hit env c key v w = (res, c1, w1)"
  shows "\<exists>a b. res = Inr a \<and> same_record a b \<and> settled env c1 key b"
proof (cases "no_enrich env v")
  case True
  then obtain w' where "cache_hit env c key v w = (Inr v, c, w')"
    using cache_hit_settled by blast
  with assms(6) have "res = Inr v" "c1 = c" by simp_all
  moreover have "settled env c key v"
    using assms(1,2,3) True by (simp add: settled_def)
  ultimately show ?thesis using same_record_refl by blast
next
  case False
  then obtain d where v: "v = JObj d"
    and g: "py_truthy (dict_get d ''geneid'')" and n: "dict_get d ''entrez_summary'' = JNull"
    and f: "py_truthy (fetch_summary_from_entrez env (dict_get d ''geneid''))"
    by (cases v) (auto simp: no_enrich_def)
  let ?e = "fetch_summary_from_entrez env (dict_get d ''geneid'')"
  let ?d' = "AList.update ''entrez_summary'' ?e d"
  let ?w = "emit (CallSummaryEntrez (dict_get d ''geneid'')) w"
  let ?r = "dict_merge [(''fetched_at'', JNum (clock ?w (ticks ?w)))] ?d'"
  have wf: "distinct (map fst d)" "dict_has d ''fetched_at''" using assms(5) v by auto
  have res: "res = Inr (JObj ?d')" and c1: "c1 = fst (GeneCache_set c key ?d' ?w)"
    using assms(6) cache_hit_enrich [OF g n f, of c key w] by (simp_all add: v)
  have dc1: "data c1 = AList.update key (JObj ?r) (data c)"
    by (simp add: c1 GeneCache_set_eq assms(4))
  have m: "map_of ?r = map_of ?d'"
    using wf(2) by (auto simp: fun_eq_iff map_of_enriched [OF wf(1)] update_conv')
  have same: "same_record (JObj ?d') (JObj ?r)"
    by (rule same_record_dict) (simp add: m)
  have look: "map_of (data c1) key = Some (JObj ?r)" by (simp add: dc1 update_conv')
  have tr: "py_truthy (JObj ?r)" by (simp add: dict_merge_not_empty)
  have keys: "dict_has ?r k = (dict_has d k \<or> k = ''entrez_summary'' \<or> k = ''fetched_at'')" for k
    using wf(2) by (auto simp: dict_has_def m update_conv')
  have nl: "\<not> is_legacy (JObj ?r)"
    using assms(3) by (simp add: v is_legacy_def keys)
  have mes: "map_of ?r ''entrez_summary'' = Some ?e" by (simp add: m update_conv')
  have es: "dict_get ?r ''entrez_summary'' = ?e"
    by (subst dict_get_def) (simp only: mes option.case)
  have "?e \<noteq> JNull" using f by auto
  then have ne: "no_enrich env (JObj ?r)" by (simp add: no_enrich_def es)
  have "settled env c1 key (JObj ?r)" using look tr nl ne by (simp add: settled_def)
  with res same show ?thesis by blast
qed

lemma normalize_and_store_outcome:
  assumes "py_upper key = key"
      and "normalize_and_store env c key details source summary w = (res, c1, w1)"
  shows "\<exists>a. res = Inr a \<and> settled env c1 key a"
proof -
  let ?r = "stored_record env key details source summary w"
  from normalize_and_store_eq [of env c key details source summary w] assms(2)
  have res: "res = Inr (JObj ?r)"
    and dc: "data c1 = AList.update (py_upper key) (JObj ?r) (data c)" by auto
  have hs: "dict_has ?r ''summary''"
    by (simp add: stored_record_def dict_has_merge dict_has_out_summary)
  then have "?r \<noteq> []" by (auto simp: dict_has_def)
  then have "settled env c1 key (JObj ?r)"
    using hs by (simp add: settled_def dc assms(1) update_conv' is_legacy_def no_enrich_stored_record)
  with res show ?thesis by blast
qed

text \<open>The first call either fails in a way every later call repeats, or settles the entry.\<close>

lemma first_call_outcome:
  assumes "\<forall>d. map_of (data c) (py_upper (py_strip g)) = Some (JObj d)
               \<longrightarrow> distinct (map fst d) \<and> dict_has d ''fetched_at''"
      and "get_gene_data_with env g c w = (res, c1, w1)"
  shows "(\<exists>e. res = Inl e \<and>
            (\<forall>g' w'. py_upper (py_strip g') = py_upper (py_strip g)
                 \<longrightarrow> (\<exists>w''. get_gene_data_with env g' c1 w' = (Inl e, c1, w''))))
       \<or> (py_upper (py_strip g) \<noteq> [] \<and>
            (\<exists>a b. res = Inr a \<and> same_record a b \<and> settled env c1 (py_upper (py_strip g)) b))"
proof (cases "py_upper (py_strip g) = []")
  case True
  then have "res = Inl (ValueError ''Empty gene symbol'')" "c1 = c"
    using assms(2) by (simp_all add: get_gene_data_with_def)
  moreover have "get_gene_data_with env g' c w' = (Inl (ValueError ''Empty gene symbol''), c, w')"
    if "py_upper (py_strip g') = py_upper (py_strip g)" for g' w'
    using that True by (simp add: get_gene_data_with_def)
  ultimately show ?thesis by blast
next
  case ne: False
  let ?key = "py_upper (py_strip g)"
  have u: "py_upper ?key = ?key" by (simp add: py_upper_idem)
  from GeneCache_get_cases [of c ?key w] show ?thesis
  proof
    assume "\<exists>v. GeneCache_get c ?key w = (Some v, c, w) \<and> map_of (data c) (py_upper ?key) = Some v
                \<and> py_truthy v \<and> \<not> is_legacy v"
    then obtain v where gt: "GeneCache_get c ?key w = (Some v, c, w)"
        and look: "map_of (data c) ?key = Some v" and tr: "py_truthy v" and nl: "\<not> is_legacy v"
      by (auto simp: u)
    have ch: "cache_hit env c ?key v w = (res, c1, w1)"
      using assms(2) ne gt by (simp add: get_gene_data_with_def Let_def)
    have wf: "\<forall>d. v = JObj d \<longrightarrow> distinct (map fst d) \<and> dict_has d ''fetched_at''"
      using assms(1) look by auto
    from cache_hit_outcome [OF look tr nl u wf ch] ne show ?thesis by blast
  next
    assume "\<exists>c0 w0. GeneCache_get c ?key w = (None, c0, w0)
                \<and> (\<forall>w'. GeneCache_get c0 ?key w' = (None, c0, w'))"
    then obtain c0 w0 where gt: "GeneCache_get c ?key w = (None, c0, w0)"
        and stable: "\<forall>w'. GeneCache_get c0 ?key w' = (None, c0, w')" by blast
    have cm: "cache_miss env c0 ?key w0 = (res, c1, w1)"
      using assms(2) ne gt by (simp add: get_gene_data_with_def Let_def)
    from cache_miss_outcome [of env ?key] show ?thesis
    proof
      assume "\<exists>e. \<forall>c w. \<exists>w'. cache_miss env c ?key w = (Inl e, c, w')"
      then obtain e where e: "\<forall>c w. \<exists>w'. cache_miss env c ?key w = (Inl e, c, w')" by blast
      then have r: "res = Inl e" "c1 = c0" using cm by (metis prod.inject)+
      have "\<exists>w''. get_gene_data_with env g' c0 w' = (Inl e, c0, w'')"
        if "py_upper (py_strip g') = ?key" for g' w'
      proof -
        from e obtain w'' where "cache_miss env c0 ?key w' = (Inl e, c0, w'')" by blast
        then show ?thesis
          using that ne stable by (simp add: get_gene_data_with_def Let_def)
      qed
      with r show ?thesis by blast
    next
      assume "\<exists>details source summary. \<forall>c w. \<exists>w'. cache_miss env c ?key w
                  = normalize_and_store env c ?key details source summary w'"
      then obtain details source summary w'
        where "cache_miss env c0 ?key w0 = normalize_and_store env c0 ?key details source summary w'"
        by blast
      with cm have "normalize_and_store env c0 ?key details source summary w' = (res, c1, w1)"
        by simp
      from normalize_and_store_outcome [OF u this] ne same_record_refl show ?thesis by blast
    qed
  qed
qed




lemma same_result_refl_err: "same_result (Inl e) (Inl e)"
  by (simp add: same_result_def)


text \<open>
  C4 (as the code has it). Let \<open>s\<close> be a symbol whose lowercase and uppercase forms
  normalize (strip, then upper) to the key of \<open>s\<close>; every ASCII symbol is one. Let the
  record already cached under that key, if there is one, carry a \<open>fetched_at\<close> field,
  as every record written by \<^verbatim>\<open>GeneCache.set\<close> does. Then three calls in a row on the same
  cache object with the same adapters, for \<open>s\<close>, \<^verbatim>\<open>s.lower()\<close> and \<^verbatim>\<open>s.upper()\<close>, give
  the same result: the same error, or records with the same fields and values. The
  second and third call leave the cache object as the first call left it, and when a
  record is returned they return the entry stored under the key.
\<close>

theorem get_gene_data_case_insensitive:
  assumes "is_ascii s \<or> (py_upper (py_strip (py_lower s)) = py_upper (py_strip s)
                          \<and> py_upper (py_strip (py_upper s)) = py_upper (py_strip s))"
      and "\<forall>d. map_of (data c) (py_upper (py_strip s)) = Some (JObj d)
               \<longrightarrow> distinct (map fst d) \<and> dict_has d ''fetched_at''"
      and "get_gene_data env s (Some c) w = (res1, cache1, w1)"
      and "get_gene_data env (py_lower s) cache1 w1 = (res2, cache2, w2)"
      and "get_gene_data env (py_upper s) cache2 w2 = (res3, cache3, w3)"
  shows "same_result res1 res2 \<and> same_result res1 res3 \<and> res3 = res2
       \<and> cache2 = cache1 \<and> cache3 = cache1
       \<and> (\<forall>a. res1 = Inr a \<longrightarrow>
             (\<exists>c1 b. cache1 = Some c1
                    \<and> map_of (data c1) (py_upper (py_strip s)) = Some b
                    \<and> res2 = Inr b \<and> res3 = Inr b))"
proof -
  let ?key = "py_upper (py_strip s)"
  have kl: "py_upper (py_strip (py_lower s)) = ?key"
    using assms(1) key_of_lower by blast
  have ku: "py_upper (py_strip (py_upper s)) = ?key"
    using assms(1) key_of_upper by blast
  obtain c1 where c1: "cache1 = Some c1" and g1: "get_gene_data_with env s c w = (res1, c1, w1)"
    using assms(3) by (auto simp: get_gene_data_def split: prod.splits)
  have g2: "get_gene_data_with env (py_lower s) c1 w1 = (r, c', w') \<Longrightarrow>
              res2 = r \<and> cache2 = Some c' \<and> w2 = w'" for r c' w'
    using assms(4) by (simp add: c1 get_gene_data_def)
  from first_call_outcome [OF assms(2) g1] show ?thesis
  proof
    assume "\<exists>e. res1 = Inl e \<and>
            (\<forall>g' w'. py_upper (py_strip g') = ?key
                 \<longrightarrow> (\<exists>w''. get_gene_data_with env g' c1 w' = (Inl e, c1, w'')))"
    then obtain e where r1: "res1 = Inl e"
      and rep: "\<And>g' w'. py_upper (py_strip g') = ?key
                  \<Longrightarrow> \<exists>w''. get_gene_data_with env g' c1 w' = (Inl e, c1, w'')" by blast
    from rep [OF kl, of w1] obtain w'
      where "get_gene_data_with env (py_lower s) c1 w1 = (Inl e, c1, w')" by blast
    from g2 [OF this] have r2: "res2 = Inl e" "cache2 = Some c1" by simp_all
    from rep [OF ku, of w2] obtain w''
      where "get_gene_data_with env (py_upper s) c1 w2 = (Inl e, c1, w'')" by blast
    then have r3: "res3 = Inl e" "cache3 = Some c1"
      using assms(5) by (simp_all add: r2 get_gene_data_def)
    show ?thesis by (simp add: r1 r2 r3 c1 same_result_def)
  next
    assume "?key \<noteq> [] \<and> (\<exists>a b. res1 = Inr a \<and> same_record a b \<and> settled env c1 ?key b)"
    then obtain a b where ne: "?key \<noteq> []" and r1: "res1 = Inr a" and same: "same_record a b"
      and st: "settled env c1 ?key b" by blast
    from settled_call [OF st kl ne, of w1] obtain w'
      where "get_gene_data_with env (py_lower s) c1 w1 = (Inr b, c1, w')" by blast
    from g2 [OF this] have r2: "res2 = Inr b" "cache2 = Some c1" by simp_all
    from settled_call [OF st ku ne, of w2] obtain w''
      where "get_gene_data_with env (py_upper s) c1 w2 = (Inr b, c1, w'')" by blast
    then have r3: "res3 = Inr b" "cache3 = Some c1"
      using assms(5) by (simp_all add: r2 get_gene_data_def)
    have look: "map_of (data c1) ?key = Some b" using st by (simp add: settled_def)
    show ?thesis using same look by (simp add: r1 r2 r3 c1 same_result_def)
  qed
qed

theorem get_gene_data_case_insensitive_witness:
  "is_ascii ''Brca1''
   \<and> map_of (data cache_unenriched) (py_upper (py_strip ''Brca1''))
       = Some (JObj [(''fetched_at'', JNum 1), (''symbol'', JStr ''BRCA1''),
                     (''summary'', JStr ''DNA repair''), (''geneid'', JStr ''672''),
                     (''entrez_summary'', JNull)])
   \<and> distinct (map fst [(''fetched_at'', JNum 1), (''symbol'', JStr ''BRCA1''),
                     (''summary'', JStr ''DNA repair''), (''geneid'', JStr ''672''),
                     (''entrez_summary'', JNull)])
   \<and> dict_has [(''fetched_at'', JNum 1), (''symbol'', JStr ''BRCA1''),
                     (''summary'', JStr ''DNA repair''), (''geneid'', JStr ''672''),
                     (''entrez_summary'', JNull)] ''fetched_at''
   \<and> fst first_call = Inr (JObj enriched_brca1)
   \<and> fst second_call = Inr (JObj enriched_brca1)
   \<and> fst third_call = Inr (JObj enriched_brca1)
   \<and> same_result (fst first_call) (fst second_call)
   \<and> same_result (fst first_call) (fst third_call)
   \<and> fst (snd second_call) = fst (snd first_call)
   \<and> fst (snd third_call) = fst (snd first_call)
   \<and> map_option data (fst (snd first_call)) = Some [(''BRCA1'', JObj enriched_brca1)]"
proof -
  have a: "is_ascii ''Brca1''" by code_simp
  have k: "py_upper (py_strip ''Brca1'') = ''BRCA1''" by code_simp
  have l: "map_of (data cache_unenriched) (py_upper (py_strip ''Brca1''))
       = Some (JObj [(''fetched_at'', JNum 1), (''symbol'', JStr ''BRCA1''),
                     (''summary'', JStr ''DNA repair''), (''geneid'', JStr ''672''),
                     (''entrez_summary'', JNull)])"
    by (simp add: k cache_unenriched_def)
  have d: "distinct (map fst [(''fetched_at'', JNum 1), (''symbol'', JStr ''BRCA1''),
                     (''summary'', JStr ''DNA repair''), (''geneid'', JStr ''672''),
                     (''entrez_summary'', JNull)])" by simp
  have h: "dict_has [(''fetched_at'', JNum 1), (''symbol'', JStr ''BRCA1''),
                     (''summary'', JStr ''DNA repair''), (''geneid'', JStr ''672''),
                     (''entrez_summary'', JNull)] ''fetched_at''" by (simp add: dict_has_def)
  have wf: "\<forall>d. map_of (data cache_unenriched) (py_upper (py_strip ''Brca1'')) = Some (JObj d)
               \<longrightarrow> distinct (map fst d) \<and> dict_has d ''fetched_at''"
    using l d h by simp
  have v1: "fst first_call = Inr (JObj enriched_brca1)" by code_simp
  have v2: "fst second_call = Inr (JObj enriched_brca1)" by code_simp
  have v3: "fst third_call = Inr (JObj enriched_brca1)" by code_simp
  have s1: "map_option data (fst (snd first_call)) = Some [(''BRCA1'', JObj enriched_brca1)]"
    by code_simp
  have e1: "get_gene_data env_enrich ''Brca1'' (Some cache_unenriched) world0
              = (fst first_call, fst (snd first_call), snd (snd first_call))"
    by (simp add: first_call_def)
  have e2: "get_gene_data env_enrich (py_lower ''Brca1'') (fst (snd first_call)) (snd (snd first_call))
              = (fst second_call, fst (snd second_call), snd (snd second_call))"
    by (simp add: second_call_def)
  have e3: "get_gene_data env_enrich (py_upper ''Brca1'') (fst (snd second_call)) (snd (snd second_call))
              = (fst third_call, fst (snd third_call), snd (snd third_call))"
    by (simp add: third_call_def)
  from get_gene_data_case_insensitive [OF disjI1 [OF a] wf e1 e2 e3]
  show ?thesis using a l d h v1 v2 v3 s1 by blast
qed


text \<open>
  C4 as stated fails in two ways. The Kelvin sign U+212A is its own uppercase form but
  its lowercase form is \<open>k\<close>, so the first call works under the key U+212A and the second
  under the key \<open>K\<close>: two entries, two records. And when the first call enriches a cached
  record that has no \<open>fetched_at\<close>, it returns the enriched record without that field
  while the later calls return the stored record, which has it.
\<close>

theorem get_gene_data_case_variants_differ:
  "py_lower kelvin_sign = ''k''
   \<and> py_upper (py_strip kelvin_sign) = [CHR 0xE2, CHR 0x84, CHR 0xAA]
   \<and> py_upper (py_strip (py_lower kelvin_sign)) = ''K''
   \<and> record_field (fst kelvin_first) ''symbol'' = Some (JStr [CHR 0xE2, CHR 0x84, CHR 0xAA])
   \<and> record_field (fst kelvin_second) ''symbol'' = Some (JStr ''K'')
   \<and> \<not> same_result (fst kelvin_first) (fst kelvin_second)
   \<and> record_field (fst unstamped_first) ''fetched_at'' = None
   \<and> record_field (fst unstamped_second) ''fetched_at'' = Some (JNum 1700000000)
   \<and> \<not> same_result (fst unstamped_first) (fst unstamped_second)"
  by code_simp


subsection \<open>The key of a lookup\<close>

text \<open>
  C9 (as the code has it). \<^verbatim>\<open>GeneCache.get\<close> looks the symbol up under its uppercased
  form and under nothing else: with no entry under \<^verbatim>\<open>gene.upper()\<close> it returns absent
  and changes nothing, a truthy entry there that is not legacy-shaped is returned, and
  whatever it returns is the entry stored there; so \<^verbatim>\<open>get("brca1")\<close> and
  \<^verbatim>\<open>get("BRCA1")\<close> consult the same entry. It does not trim. Trimming is done by
  \<^verbatim>\<open>get_gene_data\<close>, which consults the cache under the trimmed and uppercased symbol:
  an entry stored there that needs no enrichment is what the call returns.
\<close>

theorem GeneCache_get_uppercases_key:
  "(map_of (data c) (py_upper gene) = None \<longrightarrow> GeneCache_get c gene w = (None, c, w))
   \<and> (\<forall>v. map_of (data c) (py_upper gene) = Some v \<and> py_truthy v \<and> \<not> is_legacy v
           \<longrightarrow> GeneCache_get c gene w = (Some v, c, w))
   \<and> (\<forall>v. fst (GeneCache_get c gene w) = Some v \<longrightarrow> map_of (data c) (py_upper gene) = Some v)
   \<and> GeneCache_get c ''brca1'' w = GeneCache_get c ''BRCA1'' w
   \<and> (\<forall>v. py_upper (py_strip gene) \<noteq> []
           \<and> map_of (data c) (py_upper (py_strip gene)) = Some v
           \<and> py_truthy v \<and> \<not> is_legacy v \<and> no_enrich env v
           \<longrightarrow> fst (get_gene_data env gene (Some c) w) = Inr v)"
proof -
  have a: "py_upper ''brca1'' = ''BRCA1''" by code_simp
  have b: "py_upper ''BRCA1'' = ''BRCA1''" by code_simp
  have p1: "map_of (data c) (py_upper gene) = None \<longrightarrow> GeneCache_get c gene w = (None, c, w)"
    by (simp add: GeneCache_get_def)
  have p2: "\<forall>v. map_of (data c) (py_upper gene) = Some v \<and> py_truthy v \<and> \<not> is_legacy v
           \<longrightarrow> GeneCache_get c gene w = (Some v, c, w)"
    by (simp add: GeneCache_get_def)
  have p3: "\<forall>v. fst (GeneCache_get c gene w) = Some v \<longrightarrow> map_of (data c) (py_upper gene) = Some v"
    by (auto simp: GeneCache_get_def Let_def split: option.splits if_splits)
  have p4: "GeneCache_get c ''brca1'' w = GeneCache_get c ''BRCA1'' w"
    unfolding GeneCache_get_def a b by simp
  have p5: "fst (get_gene_data env gene (Some c) w) = Inr v"
    if "py_upper (py_strip gene) \<noteq> []" "map_of (data c) (py_upper (py_strip gene)) = Some v"
       "py_truthy v" "\<not> is_legacy v" "no_enrich env v" for v
  proof -
    have st: "settled env c (py_upper (py_strip gene)) v"
      using that by (simp add: settled_def)
    from settled_call [OF st refl that(1), of w] obtain w'
      where "get_gene_data_with env gene c w = (Inr v, c, w')" by blast
    then show ?thesis by (simp add: get_gene_data_def)
  qed
  from p1 p2 p3 p4 p5 show ?thesis by blast
qed


theorem GeneCache_get_uppercases_key_witness:
  "map_of (data cache_brca1) (py_upper ''brca1'')
      = Some (JObj [(''fetched_at'', JNum 1), (''summary'', JStr ''DNA repair'')])
   \<and> py_truthy (JObj [(''fetched_at'', JNum 1), (''summary'', JStr ''DNA repair'')])
   \<and> \<not> is_legacy (JObj [(''fetched_at'', JNum 1), (''summary'', JStr ''DNA repair'')])
   \<and> no_enrich env_nothing (JObj [(''fetched_at'', JNum 1), (''summary'', JStr ''DNA repair'')])
   \<and> GeneCache_get cache_brca1 ''brca1'' world0
       = (Some (JObj [(''fetched_at'', JNum 1), (''summary'', JStr ''DNA repair'')]),
          cache_brca1, world0)
   \<and> map_of (data cache_brca1) (py_upper '' brca1 '') = None
   \<and> GeneCache_get cache_brca1 '' brca1 '' world0 = (None, cache_brca1, world0)
   \<and> py_upper (py_strip '' brca1 '') \<noteq> []
   \<and> map_of (data cache_brca1) (py_upper (py_strip '' brca1 ''))
       = Some (JObj [(''fetched_at'', JNum 1), (''summary'', JStr ''DNA repair'')])
   \<and> fst (get_gene_data env_nothing '' brca1 '' (Some cache_brca1) world0)
       = Inr (JObj [(''fetched_at'', JNum 1), (''summary'', JStr ''DNA repair'')])"
proof -
  let ?v = "JObj [(''fetched_at'', JNum 1), (''summary'', JStr ''DNA repair'')]"
  have u: "py_upper ''brca1'' = ''BRCA1''" by code_simp
  have us: "py_upper '' brca1 '' = '' BRCA1 ''" by code_simp
  have k: "py_upper (py_strip '' brca1 '') = ''BRCA1''" by code_simp
  have l: "map_of (data cache_brca1) (py_upper ''brca1'') = Some ?v"
    by (simp add: u cache_brca1_def)
  have ls: "map_of (data cache_brca1) (py_upper '' brca1 '') = None"
    by (simp add: us cache_brca1_def)
  have lk: "map_of (data cache_brca1) (py_upper (py_strip '' brca1 '')) = Some ?v"
    by (simp add: k cache_brca1_def)
  have t: "py_truthy ?v" by simp
  have nl: "\<not> is_legacy ?v" by (simp add: is_legacy_def dict_has_def)
  have ne: "no_enrich env_nothing ?v" by (simp add: no_enrich_def dict_get_def)
  have kn: "py_upper (py_strip '' brca1 '') \<noteq> []" by (simp add: k)
  from GeneCache_get_uppercases_key [of cache_brca1 "''brca1''" world0 env_nothing]
       GeneCache_get_uppercases_key [of cache_brca1 "'' brca1 ''" world0 env_nothing]
  show ?thesis using l ls lk t nl ne kn by blast
qed

text \<open>
  C9 as stated fails: \<open>get\<close> does not trim. With a record stored under \<open>BRCA1\<close>, the
  key \<open>" brca1 "\<close> is looked up as \<open>" BRCA1 "\<close> and finds nothing.
\<close>

theorem GeneCache_get_does_not_trim:
  "fst (GeneCache_get cache_brca1 '' brca1 '' world0) = None \<and>
   fst (GeneCache_get cache_brca1 ''BRCA1'' world0)
     = Some (JObj [(''fetched_at'', JNum 1), (''summary'', JStr ''DNA repair'')])"
  by code_simp

end
